theory Spec2Isabelle
  imports Main
begin

section \<open>Python values and exceptions\<close>

text \<open>
  Exceptions are values. \<open>SocketError args\<close> stands for \<open>socket.error\<close> and
  \<open>socket.timeout\<close> with the exception's \<open>args\<close> tuple (each argument as
  \<open>%s\<close> prints it); \<open>ConnectionError\<close> is \<open>fdfs_client.exceptions.ConnectionError\<close>.
\<close>

datatype error =
    ConnectionError string
  | DataError string
  | ResponseError string
  | SocketError "string list"
  | NameError string
  | UnboundLocalError string
  | IndexError string
  | KeyError string
  | TypeError string
  | AttributeError string

text \<open>Decimal printing of integers, as \<open>%s\<close> and \<open>%d\<close> do.\<close>

function str_nat :: "nat \<Rightarrow> string" where
  "str_nat n = (if n < 10 then [''0123456789'' ! n]
                else str_nat (n div 10) @ [''0123456789'' ! (n mod 10)])"
  by pat_completeness auto
termination
  by (relation "measure id") auto

definition str_int :: "int \<Rightarrow> string" where
  "str_int i = (if i < 0 then CHR ''-'' # str_nat (nat (- i)) else str_nat (nat i))"

definition str_opt :: "('a \<Rightarrow> string) \<Rightarrow> 'a option \<Rightarrow> string" where
  "str_opt f v = (case v of None \<Rightarrow> ''None'' | Some x \<Rightarrow> f x)"

section \<open>connection.py: Connection\<close>

type_synonym ref = nat
type_synonym socket = nat
type_synonym endpoint = "string \<times> int"

text \<open>
  What the module takes from outside: the process id (\<open>os.getpid()\<close>), the index
  \<open>random.choice\<close> draws, what \<open>socket.create_connection\<close> does and what
  \<open>sock.close()\<close> does. The first two transport oracles take the number of connect
  attempts made so far, so that successive attempts may differ.
\<close>

record env =
  getpid :: nat
  random_choice :: "nat \<Rightarrow> nat"
  create_connection :: "nat \<Rightarrow> endpoint \<Rightarrow> int option \<Rightarrow> error + socket"
  sock_close :: "socket \<Rightarrow> error option"

record Connection =
  pid :: nat
  host_tuple :: "endpoint list option"
  timeout :: "int option"
  remote_addr :: "string option"
  remote_port :: "int option"
  sock :: "socket option"

record conn_kwargs =
  kw_host_tuple :: "endpoint list option"
  kw_timeout :: "int option"

definition Connection_init :: "env \<Rightarrow> conn_kwargs \<Rightarrow> Connection" where
  "Connection_init e kw =
     \<lparr>pid = getpid e, host_tuple = kw_host_tuple kw, timeout = kw_timeout kw,
      remote_addr = None, remote_port = None, sock = None\<rparr>"

text \<open>\<open>_errormessage\<close>: \<open>exception.args[0]\<close> of an empty tuple raises IndexError.\<close>

definition Connection_errormessage :: "Connection \<Rightarrow> string list \<Rightarrow> error + string" where
  "Connection_errormessage c args =
     (if length args = 1 then
        Inr (''[-] Error: connect to '' @ str_opt id (remote_addr c) @ '':''
             @ str_opt str_int (remote_port c) @ ''. '' @ args ! 0 @ ''.'')
      else if args = [] then Inl (IndexError ''tuple index out of range'')
      else
        Inr (''[-] Error: '' @ args ! 0 @ '' connect to '' @ str_opt id (remote_addr c)
             @ '':'' @ str_opt str_int (remote_port c) @ ''. '' @ args ! 1 @ ''.''))"

text \<open>
  \<open>_connect\<close>: the endpoint is stored in the instance before the socket is opened, so
  it stays there when opening fails. The third component is the attempt counter.
\<close>

definition Connection_private_connect ::
  "env \<Rightarrow> nat \<Rightarrow> Connection \<Rightarrow> (error + socket) \<times> Connection \<times> nat" where
  "Connection_private_connect e t c =
     (case host_tuple c of
        None \<Rightarrow> (Inl (TypeError ''object of type NoneType has no len()''), c, t)
      | Some hs \<Rightarrow>
          if hs = [] then (Inl (IndexError ''Cannot choose from an empty sequence''), c, t)
          else
            let ep = hs ! (random_choice e t mod length hs);
                c' = c\<lparr>remote_addr := Some (fst ep), remote_port := Some (snd ep)\<rparr>
            in (create_connection e t ep (timeout c), c', Suc t))"

definition Connection_connect ::
  "env \<Rightarrow> nat \<Rightarrow> Connection \<Rightarrow> (error + unit) \<times> Connection \<times> nat" where
  "Connection_connect e t c =
     (if sock c \<noteq> None then (Inr (), c, t)
      else
        case Connection_private_connect e t c of
          (Inl err, c', t') \<Rightarrow>
            (case err of
               SocketError args \<Rightarrow>
                 (case Connection_errormessage c' args of
                    Inl err' \<Rightarrow> (Inl err', c', t')
                  | Inr m \<Rightarrow> (Inl (ConnectionError m), c', t'))
             | _ \<Rightarrow> (Inl err, c', t'))
        | (Inr s, c', t') \<Rightarrow> (Inr (), c'\<lparr>sock := Some s\<rparr>, t'))"

definition Connection_disconnect :: "env \<Rightarrow> Connection \<Rightarrow> (error + unit) \<times> Connection" where
  "Connection_disconnect e c =
     (case sock c of
        None \<Rightarrow> (Inr (), c)
      | Some s \<Rightarrow>
          (case sock_close e s of
             Some err \<Rightarrow>
               (case err of
                  SocketError args \<Rightarrow>
                    (case Connection_errormessage c args of
                       Inl err' \<Rightarrow> (Inl err', c)
                     | Inr m \<Rightarrow> (Inl (ConnectionError m), c))
                | _ \<Rightarrow> (Inl err, c))
           | None \<Rightarrow> (Inr (), c\<lparr>sock := None\<rparr>)))"

definition Connection_get_sock :: "Connection \<Rightarrow> socket option" where
  "Connection_get_sock c = sock c"

section \<open>connection.py: ConnectionPool\<close>

text \<open>
  Connections are objects: the pool's list and set hold references, compared by
  identity. The store maps each reference to the object's fields; \<open>next_ref\<close> is the
  next unused reference and \<open>clock\<close> the number of connect attempts made so far.
\<close>

record world =
  heap :: "ref \<Rightarrow> Connection option"
  next_ref :: ref
  clock :: nat

record ConnectionPool =
  pool_name :: string
  pool_pid :: nat
  max_conn :: int
  conn_kwargs :: conn_kwargs
  conns_created :: int
  conns_available :: "ref list"
  conns_inuse :: "ref set"
  debug :: bool

text \<open>\<open>__init__\<close>, with \<open>conn_class\<close> the class \<open>Connection\<close>: \<open>max_conn or 2 ** 31\<close>.\<close>

definition ConnectionPool_init ::
  "env \<Rightarrow> string \<Rightarrow> int option \<Rightarrow> bool \<Rightarrow> conn_kwargs \<Rightarrow> ConnectionPool" where
  "ConnectionPool_init e name mc dbg kw =
     \<lparr>pool_name = name, pool_pid = getpid e,
      max_conn = (case mc of None \<Rightarrow> 2 ^ 31 | Some m \<Rightarrow> if m = 0 then 2 ^ 31 else m),
      conn_kwargs = kw, conns_created = 0, conns_available = [], conns_inuse = {},
      debug = dbg\<rparr>"

fun disconnect_all :: "env \<Rightarrow> ref list \<Rightarrow> world \<Rightarrow> (error + unit) \<times> world" where
  "disconnect_all e [] w = (Inr (), w)"
| "disconnect_all e (r # rs) w =
     (case heap w r of
        None \<Rightarrow> (Inl (AttributeError ''disconnect''), w)
      | Some c \<Rightarrow>
          (case Connection_disconnect e c of
             (Inl err, c') \<Rightarrow> (Inl err, w\<lparr>heap := (heap w)(r \<mapsto> c')\<rparr>)
           | (Inr u, c') \<Rightarrow> disconnect_all e rs (w\<lparr>heap := (heap w)(r \<mapsto> c')\<rparr>)))"

text \<open>
  \<open>destroy\<close> walks \<open>chain(_conns_inuse, _conns_available)\<close>; the set is walked in
  increasing order of reference here (Python leaves the order open).
\<close>

definition ConnectionPool_destroy ::
  "env \<Rightarrow> ConnectionPool \<Rightarrow> world \<Rightarrow> (error + unit) \<times> world" where
  "ConnectionPool_destroy e p w =
     disconnect_all e (sorted_list_of_set (conns_inuse p) @ conns_available p) w"

definition ConnectionPool_check_pid ::
  "env \<Rightarrow> ConnectionPool \<Rightarrow> world \<Rightarrow> (error + unit) \<times> ConnectionPool \<times> world" where
  "ConnectionPool_check_pid e p w =
     (if pool_pid p \<noteq> getpid e then
        (case ConnectionPool_destroy e p w of
           (Inl err, w') \<Rightarrow> (Inl err, p, w')
         | (Inr u, w') \<Rightarrow>
             (Inr (), ConnectionPool_init e (pool_name p) (Some (max_conn p)) False
                        (conn_kwargs p), w'))
      else (Inr (), p, w))"

text \<open>
  The \<open>while num_try > 0\<close> loop of \<open>make_conn\<close>, by the value of \<open>num_try\<close>. Each
  round allocates a new instance and connects it; only ConnectionError is caught.
  (The \<open>if num_try <= 0: break\<close> inside the loop cannot fire.)
\<close>

fun make_conn_loop ::
  "env \<Rightarrow> nat \<Rightarrow> ConnectionPool \<Rightarrow> world \<Rightarrow> (error + ref) \<times> ConnectionPool \<times> world" where
  "make_conn_loop e 0 p w =
     (Inl (ConnectionError ''Fail to connect with Fdfs-server after trying 3 times''), p, w)"
| "make_conn_loop e (Suc n) p w =
     (case Connection_connect e (clock w) (Connection_init e (conn_kwargs p)) of
        (res, c', t') \<Rightarrow>
          let w' = w\<lparr>heap := (heap w)(next_ref w \<mapsto> c'), next_ref := Suc (next_ref w),
                      clock := t'\<rparr>
          in (case res of
                Inr u \<Rightarrow> (Inr (next_ref w), p\<lparr>conns_created := conns_created p + 1\<rparr>, w')
              | Inl err \<Rightarrow>
                  (case err of
                     ConnectionError m \<Rightarrow> make_conn_loop e n p w'
                   | _ \<Rightarrow> (Inl err, p, w'))))"

definition ConnectionPool_make_conn ::
  "env \<Rightarrow> ConnectionPool \<Rightarrow> world \<Rightarrow> (error + ref) \<times> ConnectionPool \<times> world" where
  "ConnectionPool_make_conn e p w =
     (if conns_created p \<ge> max_conn p then
        (Inl (ConnectionError ''[-] Error: Too many connections.''), p, w)
      else make_conn_loop e 3 p w)"

text \<open>\<open>get_connection\<close>: \<open>list.pop()\<close> takes the last element, IndexError when empty.\<close>

definition ConnectionPool_get_connection ::
  "env \<Rightarrow> ConnectionPool \<Rightarrow> world \<Rightarrow> (error + ref) \<times> ConnectionPool \<times> world" where
  "ConnectionPool_get_connection e p w =
     (case ConnectionPool_check_pid e p w of
        (Inl err, p1, w1) \<Rightarrow> (Inl err, p1, w1)
      | (Inr u, p1, w1) \<Rightarrow>
          if conns_available p1 = [] then
            (case ConnectionPool_make_conn e p1 w1 of
               (Inl err, p2, w2) \<Rightarrow> (Inl err, p2, w2)
             | (Inr r, p2, w2) \<Rightarrow>
                 (Inr r, p2\<lparr>conns_inuse := insert r (conns_inuse p2)\<rparr>, w2))
          else
            let r = last (conns_available p1);
                p2 = p1\<lparr>conns_available := butlast (conns_available p1)\<rparr>
            in (Inr r, p2\<lparr>conns_inuse := insert r (conns_inuse p2)\<rparr>, w1))"

text \<open>\<open>remove\<close>: \<open>list.remove\<close> deletes the first occurrence.\<close>

definition ConnectionPool_remove :: "ConnectionPool \<Rightarrow> ref \<Rightarrow> ConnectionPool" where
  "ConnectionPool_remove p conn =
     (let p1 = (if conn \<in> conns_inuse p
                then p\<lparr>conns_inuse := conns_inuse p - {conn},
                        conns_created := conns_created p - 1\<rparr>
                else p)
      in if conn \<in> set (conns_available p1)
         then p1\<lparr>conns_available := remove1 conn (conns_available p1),
                  conns_created := conns_created p1 - 1\<rparr>
         else p1)"

text \<open>\<open>release\<close>: \<open>set.remove\<close> raises KeyError for an element that is not there.\<close>

definition ConnectionPool_release ::
  "env \<Rightarrow> ConnectionPool \<Rightarrow> world \<Rightarrow> ref \<Rightarrow> (error + unit) \<times> ConnectionPool \<times> world" where
  "ConnectionPool_release e p w conn =
     (case ConnectionPool_check_pid e p w of
        (Inl err, p1, w1) \<Rightarrow> (Inl err, p1, w1)
      | (Inr u, p1, w1) \<Rightarrow>
          (case heap w1 conn of
             None \<Rightarrow> (Inl (AttributeError ''pid''), p1, w1)
           | Some c \<Rightarrow>
               if pid c = pool_pid p1 then
                 (if conn \<in> conns_inuse p1 then
                    (Inr (), p1\<lparr>conns_inuse := conns_inuse p1 - {conn},
                                 conns_available := conns_available p1 @ [conn]\<rparr>, w1)
                  else (Inl (KeyError ''conn''), p1, w1))
               else (Inr (), p1, w1)))"

text \<open>
  \<open>conn.connect(); conn.connect()\<close>: the second call runs only when the first one
  did not raise.
\<close>

definition connect_twice ::
  "env \<Rightarrow> nat \<Rightarrow> Connection \<Rightarrow> (error + unit) \<times> Connection \<times> nat" where
  "connect_twice e t c =
     (case Connection_connect e t c of
        (Inl err, c', t') \<Rightarrow> (Inl err, c', t')
      | (Inr u, c', t') \<Rightarrow> Connection_connect e t' c')"

section \<open>What the transport does to a connect attempt\<close>

text \<open>
  Attempt number \<open>t\<close> of a pool whose connections are built from \<open>kw\<close>: the
  endpoint is drawn from the configured candidates and \<open>socket.create_connection\<close>
  either raises a socket error (with its arguments, as the socket module raises them)
  or returns a socket.
\<close>

definition transport_fails :: "env \<Rightarrow> conn_kwargs \<Rightarrow> nat \<Rightarrow> bool" where
  "transport_fails e kw t =
     (case kw_host_tuple kw of
        None \<Rightarrow> False
      | Some hs \<Rightarrow>
          hs \<noteq> [] \<and>
          (case create_connection e t (hs ! (random_choice e t mod length hs)) (kw_timeout kw) of
             Inl err \<Rightarrow> (case err of SocketError args \<Rightarrow> args \<noteq> [] | _ \<Rightarrow> False)
           | Inr s \<Rightarrow> False))"

definition transport_succeeds :: "env \<Rightarrow> conn_kwargs \<Rightarrow> nat \<Rightarrow> bool" where
  "transport_succeeds e kw t =
     (case kw_host_tuple kw of
        None \<Rightarrow> False
      | Some hs \<Rightarrow>
          hs \<noteq> [] \<and>
          (case create_connection e t (hs ! (random_choice e t mod length hs)) (kw_timeout kw) of
             Inl err \<Rightarrow> False
           | Inr s \<Rightarrow> True))"

section \<open>Sequences of pool operations\<close>

text \<open>
  A call of \<open>get_connection\<close>, \<open>release(conn)\<close> or \<open>remove(conn)\<close>, each made
  in its own surroundings. A call that raises leaves the pool as it was at the raise,
  and the next call of the sequence goes on from there. \<open>op_pre\<close> is the stated
  precondition of a call: \<open>release\<close> on a connection in use, \<open>remove\<close> on a
  connection in the pool.
\<close>

datatype pool_op = Get_connection | Release ref | Remove ref

definition pool_step ::
  "env \<Rightarrow> pool_op \<Rightarrow> ConnectionPool \<Rightarrow> world \<Rightarrow> ConnectionPool \<times> world" where
  "pool_step e op p w =
     (case op of
        Get_connection \<Rightarrow>
          (case ConnectionPool_get_connection e p w of (res, p', w') \<Rightarrow> (p', w'))
      | Release r \<Rightarrow>
          (case ConnectionPool_release e p w r of (res, p', w') \<Rightarrow> (p', w'))
      | Remove r \<Rightarrow> (ConnectionPool_remove p r, w))"

definition op_pre :: "pool_op \<Rightarrow> ConnectionPool \<Rightarrow> bool" where
  "op_pre op p =
     (case op of
        Get_connection \<Rightarrow> True
      | Release r \<Rightarrow> r \<in> conns_inuse p
      | Remove r \<Rightarrow> r \<in> conns_inuse p \<or> r \<in> set (conns_available p))"

fun pool_run :: "(env \<times> pool_op) list \<Rightarrow> ConnectionPool \<Rightarrow> world \<Rightarrow> ConnectionPool \<times> world" where
  "pool_run [] p w = (p, w)"
| "pool_run ((e, op) # ops) p w =
     (case pool_step e op p w of (p', w') \<Rightarrow> pool_run ops p' w')"

fun ops_pre :: "(env \<times> pool_op) list \<Rightarrow> ConnectionPool \<Rightarrow> world \<Rightarrow> bool" where
  "ops_pre [] p w = True"
| "ops_pre ((e, op) # ops) p w =
     (op_pre op p \<and> (case pool_step e op p w of (p', w') \<Rightarrow> ops_pre ops p' w'))"

text \<open>
  The invariant the proofs carry: the idle list has no duplicates and shares nothing
  with the in-use set, the count matches, every reference in the pool has been
  allocated, and (when \<open>b\<close> is set) the count is within \<open>max_conn\<close>.
\<close>

definition pool_inv :: "bool \<Rightarrow> ConnectionPool \<Rightarrow> world \<Rightarrow> bool" where
  "pool_inv b p w =
     (finite (conns_inuse p) \<and> distinct (conns_available p) \<and>
      set (conns_available p) \<inter> conns_inuse p = {} \<and>
      conns_created p = int (card (conns_inuse p) + length (conns_available p)) \<and>
      (b \<longrightarrow> conns_created p \<le> max_conn p) \<and>
      (\<forall>r \<in> conns_inuse p \<union> set (conns_available p). r < next_ref w))"


definition max_conn_arg_ok :: "int option \<Rightarrow> bool" where
  "max_conn_arg_ok mc = (case mc of None \<Rightarrow> True | Some m \<Rightarrow> 0 \<le> m)"

section \<open>connection.py: tcp_recv_response\<close>

text \<open>
  What \<open>recv\<close> hands back is a value with its Python type: \<open>bytes\<close>, which is
  what \<open>socket.recv\<close> delivers, or \<open>str\<close>, which only an object standing in for
  the socket can deliver. \<open>recv s k n\<close> is what the \<open>k\<close>-th call of \<open>sock.recv(n)\<close>
  on socket \<open>s\<close> returns or raises.
\<close>

datatype recv_data = Str string | Bytes string

definition data_len :: "recv_data \<Rightarrow> nat" where
  "data_len d = (case d of Str x \<Rightarrow> length x | Bytes x \<Rightarrow> length x)"

text \<open>
  \<open>response += resp\<close>, with \<open>response\<close> a \<open>str\<close> (it starts as the literal
  \<open>""\<close>): a \<open>str\<close> is appended, \<open>bytes\<close> raise TypeError.
\<close>

definition str_iadd :: "string \<Rightarrow> recv_data \<Rightarrow> error + string" where
  "str_iadd response resp =
     (case resp of
        Str x \<Rightarrow> Inr (response @ x)
      | Bytes x \<Rightarrow> Inl (TypeError ''can only concatenate str (not bytes) to str''))"

text \<open>
  The \<open>while 1\<close> loop. It may run forever, so it is a partial function and \<open>None\<close>
  stands for a call that never returns. In both branches \<open>recv\<close> is called first,
  then \<open>response += resp\<close>, then \<open>total_size += len(resp)\<close>.
\<close>

partial_function (option) recv_loop ::
  "(nat \<Rightarrow> int \<Rightarrow> error + recv_data) \<Rightarrow> int \<Rightarrow> int \<Rightarrow> nat \<Rightarrow> string \<Rightarrow> int
     \<Rightarrow> (error + string \<times> int) option" where
  "recv_loop rcv total_bytes_size buffer_size k response total_size =
     (if total_bytes_size - total_size \<le> buffer_size then
        (case rcv k buffer_size of
           Inl err \<Rightarrow> Some (Inl err)
         | Inr resp \<Rightarrow>
             (case str_iadd response resp of
                Inl err \<Rightarrow> Some (Inl err)
              | Inr response' \<Rightarrow>
                  Some (Inr (response', total_size + int (data_len resp)))))
      else
        (case rcv k buffer_size of
           Inl err \<Rightarrow> Some (Inl err)
         | Inr resp \<Rightarrow>
             (case str_iadd response resp of
                Inl err \<Rightarrow> Some (Inl err)
              | Inr response' \<Rightarrow>
                  recv_loop rcv total_bytes_size buffer_size (Suc k) response'
                    (total_size + int (data_len resp)))))"

text \<open>
  The handler of \<open>tcp_recv_response\<close> catches \<open>socket.error\<close> and
  \<open>socket.timeout\<close> only: \<open>"...(%s)" % e.args\<close> formats a one-element tuple and
  raises TypeError for any other length. Every other exception, the TypeError of
  \<open>response += resp\<close> included, passes.
\<close>

definition recv_except :: "error \<Rightarrow> error" where
  "recv_except err =
     (case err of
        SocketError args \<Rightarrow>
          (if length args = 1
           then ConnectionError (''[-] Error: while reading from socket: ('' @ args ! 0 @ '')'')
           else if args = [] then TypeError ''not enough arguments for format string''
           else TypeError ''not all arguments converted during string formatting'')
      | _ \<Rightarrow> err)"

definition tcp_recv_response ::
  "(socket \<Rightarrow> nat \<Rightarrow> int \<Rightarrow> error + recv_data) \<Rightarrow> Connection \<Rightarrow> int \<Rightarrow> int
     \<Rightarrow> (error + string \<times> int) option" where
  "tcp_recv_response recv conn bytes_size buffer_size =
     (case sock conn of
        None \<Rightarrow> Some (Inl (AttributeError ''recv''))
      | Some s \<Rightarrow>
          (case recv_loop (recv s) bytes_size buffer_size 0 [] 0 of
             None \<Rightarrow> None
           | Some (Inl err) \<Rightarrow> Some (Inl (recv_except err))
           | Some (Inr r) \<Rightarrow> Some (Inr r)))"




definition recv_hello_str :: "socket \<Rightarrow> nat \<Rightarrow> int \<Rightarrow> error + recv_data" where
  "recv_hello_str s k n = Inr (Str ''hello'')"

section \<open>client.py: what the facade calls\<close>

text \<open>
  Values the storage operations hand back (a status number, a result dictionary, a
  tuple), a metadata dictionary that may be \<open>None\<close>, and the \<open>Storage_server\<close>
  object a tracker query resolves to (the facade reads its \<open>ip_addr\<close> and \<open>port\<close>).
\<close>

datatype pyval =
    PNone
  | PInt int
  | PStr string
  | PDict "(string \<times> pyval) list"
  | PTuple "pyval list"

type_synonym meta = "(string \<times> string) list option"

record store_serv =
  ip_addr :: string
  port :: int

text \<open>The methods of \<open>Tracker_client\<close> and \<open>Storage_client\<close> the facade calls, with
  their arguments in the order of the call (the tracker client argument apart).\<close>

datatype tracker_req =
    tracker_query_storage_stor_without_group
  | tracker_query_storage_stor_with_group string
  | tracker_query_storage_update string string
  | tracker_query_storage_fetch string string

datatype storage_req =
    storage_upload_by_filename store_serv string meta
  | storage_upload_by_file store_serv string meta
  | storage_upload_by_buffer store_serv string "string option" meta
  | storage_upload_slave_by_filename store_serv string string string meta
  | storage_upload_slave_by_file store_serv string string string meta
  | storage_upload_slave_by_buffer store_serv string string meta "string option"
  | storage_upload_appender_by_filename store_serv string meta
  | storage_upload_appender_by_file store_serv string meta
  | storage_upload_appender_by_buffer store_serv string meta "string option"
  | storage_delete_file store_serv string
  | storage_download_to_file store_serv string int int string
  | storage_download_to_buffer store_serv "string option" int int string
  | storage_get_metadata store_serv string
  | storage_set_metadata store_serv string meta
  | storage_append_by_filename store_serv string string
  | storage_append_by_file store_serv string string
  | storage_append_by_buffer store_serv string string
  | storage_truncate_file store_serv int string
  | storage_modify_by_filename store_serv string int int string
  | storage_modify_by_file store_serv string int int string
  | storage_modify_by_buffer store_serv string int int string

text \<open>
  Every use of a collaborator is recorded: the construction of a \<open>Tracker_client\<close> or
  of a \<open>Storage_client\<close> (with the reference of the new object) and every method call
  on one (with the reference of the object called).
\<close>

datatype event =
    New_Tracker_client ref
  | Tracker_call ref tracker_req
  | New_Storage_client ref string int "int option"
  | Storage_call ref ref storage_req

text \<open>
  The collaborators are not part of client.py; they are parameters: the file id
  parser and the local file check of \<open>utils\<close>, \<open>os.stat(...).st_size\<close> and
  \<open>os.strerror\<close>, and what a tracker or storage call returns or raises (given the
  number of events so far, so that the same call may answer differently later).
\<close>

record fenv =
  split_remote_fileid :: "string \<Rightarrow> (string \<times> string) option"
  fdfs_check_file :: "string \<Rightarrow> bool \<times> string"
  os_stat_size :: "string \<Rightarrow> error + int"
  os_strerror :: "int \<Rightarrow> string"
  tracker_reply :: "nat \<Rightarrow> tracker_req \<Rightarrow> error + store_serv"
  storage_reply :: "nat \<Rightarrow> storage_req \<Rightarrow> error + pyval"

text \<open>
  The facade object: its timeout, its \<open>storages\<close> dictionary from \<open>(ip, port)\<close> to
  a \<open>Storage_client\<close> object, the events so far and the next unused object reference.
  The tracker pool, which the facade only hands to each \<open>Tracker_client\<close> it
  constructs, is left out.
\<close>

record Fdfs_client =
  client_timeout :: "int option"
  storages :: "string \<times> int \<Rightarrow> ref option"
  trace :: "event list"
  next_obj :: ref

definition Fdfs_client_init :: "int option \<Rightarrow> Fdfs_client" where
  "Fdfs_client_init tmo =
     \<lparr>client_timeout = tmo, storages = (\<lambda>k. None), trace = [], next_obj = 0\<rparr>"

type_synonym 'a facade = "Fdfs_client \<Rightarrow> (error + 'a) \<times> Fdfs_client"

definition throw :: "error \<Rightarrow> 'a facade" where
  "throw err s = (Inl err, s)"

definition ret :: "'a \<Rightarrow> 'a facade" where
  "ret x s = (Inr x, s)"

definition bnd :: "'a facade \<Rightarrow> ('a \<Rightarrow> 'b facade) \<Rightarrow> 'b facade" where
  "bnd m f s = (case m s of (Inl err, s') \<Rightarrow> (Inl err, s') | (Inr x, s') \<Rightarrow> f x s')"

definition Tracker_client_new :: "ref facade" where
  "Tracker_client_new s =
     (Inr (next_obj s),
      s\<lparr>trace := trace s @ [New_Tracker_client (next_obj s)], next_obj := Suc (next_obj s)\<rparr>)"

definition tracker_call :: "fenv \<Rightarrow> ref \<Rightarrow> tracker_req \<Rightarrow> store_serv facade" where
  "tracker_call env tc req s =
     (tracker_reply env (length (trace s)) req, s\<lparr>trace := trace s @ [Tracker_call tc req]\<rparr>)"

definition Storage_client_new :: "string \<Rightarrow> int \<Rightarrow> ref facade" where
  "Storage_client_new ip prt s =
     (Inr (next_obj s),
      s\<lparr>trace := trace s @ [New_Storage_client (next_obj s) ip prt (client_timeout s)],
        next_obj := Suc (next_obj s)\<rparr>)"

definition storage_call :: "fenv \<Rightarrow> ref \<Rightarrow> ref \<Rightarrow> storage_req \<Rightarrow> pyval facade" where
  "storage_call env store tc req s =
     (storage_reply env (length (trace s)) req,
      s\<lparr>trace := trace s @ [Storage_call store tc req]\<rparr>)"

text \<open>
  The names bound in the module client.py: its imports and its own definitions. A
  global name that is neither there nor a builtin raises NameError when it is read.
\<close>

definition client_globals :: "string list" where
  "client_globals =
     [''ConnectionPool'', ''DataError'', ''ResponseError'', ''ConfigError'',
      ''STORAGE_SET_METADATA_FLAG_OVERWRITE'', ''Storage_client'', ''Tracker_client'',
      ''Fdfs_ConfigParser'', ''split_remote_fileid'', ''fdfs_check_file'',
      ''get_tracker_conf'', ''Fdfs_client'']"

definition global_name :: "string \<Rightarrow> unit facade" where
  "global_name n = (if n \<in> set client_globals then ret () else throw (NameError n))"

text \<open>A local variable that no executed assignment has bound raises UnboundLocalError
  when it is read.\<close>

definition local_var :: "string \<Rightarrow> 'a option \<Rightarrow> 'a facade" where
  "local_var n v = (case v of None \<Rightarrow> throw (UnboundLocalError n) | Some x \<Rightarrow> ret x)"

fun dict_update :: "string \<Rightarrow> pyval \<Rightarrow> (string \<times> pyval) list \<Rightarrow> (string \<times> pyval) list" where
  "dict_update k v [] = [(k, v)]"
| "dict_update k v (kv # kvs) = (if fst kv = k then (k, v) # kvs else kv # dict_update k v kvs)"

definition setitem :: "pyval \<Rightarrow> string \<Rightarrow> pyval \<Rightarrow> pyval facade" where
  "setitem d k v =
     (case d of
        PDict kvs \<Rightarrow> ret (PDict (dict_update k v kvs))
      | _ \<Rightarrow> throw (TypeError ''object does not support item assignment''))"

text \<open>\<open>not filebuffer\<close>: true of \<open>None\<close> and of the empty buffer.\<close>

definition falsy :: "string option \<Rightarrow> bool" where
  "falsy b = (b = None \<or> b = Some [])"

section \<open>client.py: Fdfs_client\<close>

definition get_storage :: "store_serv \<Rightarrow> ref facade" where
  "get_storage serv s =
     (case storages s (ip_addr serv, port serv) of
        None \<Rightarrow>
          bnd (Storage_client_new (ip_addr serv) (port serv))
            (\<lambda>store s'. (Inr store,
                s'\<lparr>storages := (storages s')((ip_addr serv, port serv) \<mapsto> store)\<rparr>)) s
      | Some store \<Rightarrow> (Inr store, s))"

definition get_store_serv :: "fenv \<Rightarrow> string \<Rightarrow> store_serv facade" where
  "get_store_serv env remote_file_id =
     (case split_remote_fileid env remote_file_id of
        None \<Rightarrow> throw (DataError ''[-] Error: remote_file_id is invalid.(in delete file)'')
      | Some (group_name, remote_filename) \<Rightarrow>
          bnd Tracker_client_new (\<lambda>tc.
          tracker_call env tc (tracker_query_storage_update group_name remote_filename)))"

definition upload_by_filename :: "fenv \<Rightarrow> string \<Rightarrow> meta \<Rightarrow> pyval facade" where
  "upload_by_filename env filename meta_dict =
     (case fdfs_check_file env filename of
        (isfile, errmsg) \<Rightarrow>
          if \<not> isfile then throw (DataError (errmsg @ ''(uploading)''))
          else
            bnd Tracker_client_new (\<lambda>tc.
            bnd (tracker_call env tc tracker_query_storage_stor_without_group) (\<lambda>serv.
            bnd (get_storage serv) (\<lambda>store.
            storage_call env store tc (storage_upload_by_filename serv filename meta_dict)))))"

definition upload_by_file :: "fenv \<Rightarrow> string \<Rightarrow> meta \<Rightarrow> pyval facade" where
  "upload_by_file env filename meta_dict =
     (case fdfs_check_file env filename of
        (isfile, errmsg) \<Rightarrow>
          if \<not> isfile then throw (DataError (errmsg @ ''(uploading)''))
          else
            bnd Tracker_client_new (\<lambda>tc.
            bnd (tracker_call env tc tracker_query_storage_stor_without_group) (\<lambda>serv.
            bnd (get_storage serv) (\<lambda>store.
            storage_call env store tc (storage_upload_by_file serv filename meta_dict)))))"

definition upload_by_buffer ::
  "fenv \<Rightarrow> string option \<Rightarrow> string option \<Rightarrow> meta \<Rightarrow> pyval facade" where
  "upload_by_buffer env filebuffer file_ext_name meta_dict =
     (if falsy filebuffer
      then throw (DataError ''[-] Error: argument filebuffer can not be null.'')
      else
        bnd Tracker_client_new (\<lambda>tc.
        bnd (tracker_call env tc tracker_query_storage_stor_without_group) (\<lambda>serv.
        bnd (get_storage serv) (\<lambda>store.
        storage_call env store tc
          (storage_upload_by_buffer serv (the filebuffer) file_ext_name meta_dict)))))"

text \<open>The slave uploads by file name pass \<open>meta_dict=None\<close> whatever the caller gave.\<close>

definition upload_slave_by_filename ::
  "fenv \<Rightarrow> string \<Rightarrow> string \<Rightarrow> string \<Rightarrow> meta \<Rightarrow> pyval facade" where
  "upload_slave_by_filename env filename remote_file_id prefix_name meta_dict =
     (case fdfs_check_file env filename of
        (isfile, errmsg) \<Rightarrow>
          if \<not> isfile then throw (DataError (errmsg @ ''(uploading slave)''))
          else
            (case split_remote_fileid env remote_file_id of
               None \<Rightarrow>
                 throw (DataError ''[-] Error: remote_file_id is invalid.(uploading slave)'')
             | Some (group_name, remote_filename) \<Rightarrow>
                 if prefix_name = []
                 then throw (DataError ''[-] Error: prefix_name can not be null.'')
                 else
                   bnd Tracker_client_new (\<lambda>tc.
                   bnd (tracker_call env tc (tracker_query_storage_stor_with_group group_name))
                     (\<lambda>serv.
                   bnd (get_storage serv) (\<lambda>store.
                   bnd (storage_call env store tc
                          (storage_upload_slave_by_filename serv filename prefix_name
                             remote_filename None)) (\<lambda>ret_dict.
                   setitem ret_dict ''Status'' (PStr ''Upload slave file successed.'')))))))"

definition upload_slave_by_file ::
  "fenv \<Rightarrow> string \<Rightarrow> string \<Rightarrow> string \<Rightarrow> meta \<Rightarrow> pyval facade" where
  "upload_slave_by_file env filename remote_file_id prefix_name meta_dict =
     (case fdfs_check_file env filename of
        (isfile, errmsg) \<Rightarrow>
          if \<not> isfile then throw (DataError (errmsg @ ''(uploading slave)''))
          else
            (case split_remote_fileid env remote_file_id of
               None \<Rightarrow>
                 throw (DataError ''[-] Error: remote_file_id is invalid.(uploading slave)'')
             | Some (group_name, remote_filename) \<Rightarrow>
                 if prefix_name = []
                 then throw (DataError ''[-] Error: prefix_name can not be null.'')
                 else
                   bnd Tracker_client_new (\<lambda>tc.
                   bnd (tracker_call env tc (tracker_query_storage_stor_with_group group_name))
                     (\<lambda>serv.
                   bnd (get_storage serv) (\<lambda>store.
                   bnd (storage_call env store tc
                          (storage_upload_slave_by_file serv filename prefix_name
                             remote_filename None)) (\<lambda>ret_dict.
                   setitem ret_dict ''Status'' (PStr ''Upload slave file successed.'')))))))"

definition upload_slave_by_buffer ::
  "fenv \<Rightarrow> string option \<Rightarrow> string \<Rightarrow> meta \<Rightarrow> string option \<Rightarrow> pyval facade" where
  "upload_slave_by_buffer env filebuffer remote_file_id meta_dict file_ext_name =
     (if falsy filebuffer
      then throw (DataError ''[-] Error: argument filebuffer can not be null.'')
      else
        (case split_remote_fileid env remote_file_id of
           None \<Rightarrow>
             throw (DataError ''[-] Error: remote_file_id is invalid.(uploading slave)'')
         | Some (group_name, remote_filename) \<Rightarrow>
             bnd Tracker_client_new (\<lambda>tc.
             bnd (tracker_call env tc (tracker_query_storage_update group_name remote_filename))
               (\<lambda>serv.
             bnd (get_storage serv) (\<lambda>store.
             storage_call env store tc
               (storage_upload_slave_by_buffer serv (the filebuffer) remote_filename meta_dict
                  file_ext_name))))))"

definition upload_appender_by_filename :: "fenv \<Rightarrow> string \<Rightarrow> meta \<Rightarrow> pyval facade" where
  "upload_appender_by_filename env local_filename meta_dict =
     (case fdfs_check_file env local_filename of
        (isfile, errmsg) \<Rightarrow>
          if \<not> isfile then throw (DataError (errmsg @ ''(uploading appender)''))
          else
            bnd Tracker_client_new (\<lambda>tc.
            bnd (tracker_call env tc tracker_query_storage_stor_without_group) (\<lambda>serv.
            bnd (get_storage serv) (\<lambda>store.
            storage_call env store tc
              (storage_upload_appender_by_filename serv local_filename meta_dict)))))"

definition upload_appender_by_file :: "fenv \<Rightarrow> string \<Rightarrow> meta \<Rightarrow> pyval facade" where
  "upload_appender_by_file env local_filename meta_dict =
     (case fdfs_check_file env local_filename of
        (isfile, errmsg) \<Rightarrow>
          if \<not> isfile then throw (DataError (errmsg @ ''(uploading appender)''))
          else
            bnd Tracker_client_new (\<lambda>tc.
            bnd (tracker_call env tc tracker_query_storage_stor_without_group) (\<lambda>serv.
            bnd (get_storage serv) (\<lambda>store.
            storage_call env store tc
              (storage_upload_appender_by_file serv local_filename meta_dict)))))"

definition upload_appender_by_buffer ::
  "fenv \<Rightarrow> string option \<Rightarrow> string option \<Rightarrow> meta \<Rightarrow> pyval facade" where
  "upload_appender_by_buffer env filebuffer file_ext_name meta_dict =
     (if falsy filebuffer
      then throw (DataError ''[-] Error: argument filebuffer can not be null.'')
      else
        bnd Tracker_client_new (\<lambda>tc.
        bnd (tracker_call env tc tracker_query_storage_stor_without_group) (\<lambda>serv.
        bnd (get_storage serv) (\<lambda>store.
        storage_call env store tc
          (storage_upload_appender_by_buffer serv (the filebuffer) meta_dict file_ext_name)))))"

definition delete_file :: "fenv \<Rightarrow> string \<Rightarrow> pyval facade" where
  "delete_file env remote_file_id =
     (case split_remote_fileid env remote_file_id of
        None \<Rightarrow> throw (DataError ''[-] Error: remote_file_id is invalid.(in delete file)'')
      | Some (group_name, remote_filename) \<Rightarrow>
          bnd Tracker_client_new (\<lambda>tc.
          bnd (tracker_call env tc (tracker_query_storage_update group_name remote_filename))
            (\<lambda>serv.
          bnd (get_storage serv) (\<lambda>store.
          storage_call env store tc (storage_delete_file serv remote_filename)))))"

text \<open>
  The downloads bind \<open>file_offset\<close> only when \<open>offset\<close> is zero and
  \<open>download_bytes\<close> only when \<open>down_bytes\<close> is zero; the arguments of the storage
  call are evaluated from left to right after the tracker query and the construction
  of the \<open>Storage_client\<close>.
\<close>

definition download_to_file ::
  "fenv \<Rightarrow> string \<Rightarrow> string \<Rightarrow> int \<Rightarrow> int \<Rightarrow> pyval facade" where
  "download_to_file env local_filename remote_file_id offset down_bytes =
     (case split_remote_fileid env remote_file_id of
        None \<Rightarrow> throw (DataError ''[-] Error: remote_file_id is invalid.(in download file)'')
      | Some (group_name, remote_filename) \<Rightarrow>
          let file_offset = (if offset = 0 then Some offset else None);
              download_bytes = (if down_bytes = 0 then Some down_bytes else None)
          in
            bnd Tracker_client_new (\<lambda>tc.
            bnd (tracker_call env tc (tracker_query_storage_fetch group_name remote_filename))
              (\<lambda>serv.
            bnd (Storage_client_new (ip_addr serv) (port serv)) (\<lambda>store.
            bnd (local_var ''file_offset'' file_offset) (\<lambda>fo.
            bnd (local_var ''download_bytes'' download_bytes) (\<lambda>db.
            storage_call env store tc
              (storage_download_to_file serv local_filename fo db remote_filename)))))))"

definition download_to_buffer :: "fenv \<Rightarrow> string \<Rightarrow> int \<Rightarrow> int \<Rightarrow> pyval facade" where
  "download_to_buffer env remote_file_id offset down_bytes =
     (case split_remote_fileid env remote_file_id of
        None \<Rightarrow> throw (DataError ''[-] Error: remote_file_id is invalid.(in download file)'')
      | Some (group_name, remote_filename) \<Rightarrow>
          let file_offset = (if offset = 0 then Some offset else None);
              download_bytes = (if down_bytes = 0 then Some down_bytes else None)
          in
            bnd Tracker_client_new (\<lambda>tc.
            bnd (tracker_call env tc (tracker_query_storage_fetch group_name remote_filename))
              (\<lambda>serv.
            bnd (Storage_client_new (ip_addr serv) (port serv)) (\<lambda>store.
            bnd (local_var ''file_offset'' file_offset) (\<lambda>fo.
            bnd (local_var ''download_bytes'' download_bytes) (\<lambda>db.
            storage_call env store tc
              (storage_download_to_buffer serv None fo db remote_filename)))))))"

definition get_meta_data :: "fenv \<Rightarrow> string \<Rightarrow> pyval facade" where
  "get_meta_data env remote_file_id =
     (case split_remote_fileid env remote_file_id of
        None \<Rightarrow> throw (DataError ''[-] Error: remote_file_id is invalid.(in get meta data)'')
      | Some (group_name, remote_filename) \<Rightarrow>
          bnd Tracker_client_new (\<lambda>tc.
          bnd (tracker_call env tc (tracker_query_storage_update group_name remote_filename))
            (\<lambda>serv.
          bnd (Storage_client_new (ip_addr serv) (port serv)) (\<lambda>store.
          storage_call env store tc (storage_get_metadata serv remote_filename)))))"

text \<open>
  \<open>set_meta_data\<close>: the \<open>except ...: raise\<close> clause re-raises what it catches;
  \<open>op_flag\<close> is not passed on. For a status other than 0 the message is built from
  \<open>(status, os.strerror(status))\<close>, which reads the global name \<open>os\<close>; \<open>%d\<close> of a
  value that is not a number raises TypeError.
\<close>

definition set_meta_data :: "fenv \<Rightarrow> string \<Rightarrow> meta \<Rightarrow> string \<Rightarrow> pyval facade" where
  "set_meta_data env remote_file_id meta_dict op_flag =
     (case split_remote_fileid env remote_file_id of
        None \<Rightarrow> throw (DataError ''[-] Error: remote_file_id is invalid.(in set meta data)'')
      | Some (group_name, remote_filename) \<Rightarrow>
          bnd Tracker_client_new (\<lambda>tc.
          bnd (tracker_call env tc (tracker_query_storage_update group_name remote_filename))
            (\<lambda>serv.
          bnd (Storage_client_new (ip_addr serv) (port serv)) (\<lambda>store.
          bnd (storage_call env store tc (storage_set_metadata serv remote_filename meta_dict))
            (\<lambda>status.
          if status \<noteq> PInt 0 then
            bnd (global_name ''os'') (\<lambda>u.
              (case status of
                 PInt n \<Rightarrow>
                   throw (DataError (''[-] Error: '' @ str_int n @ '', '' @ os_strerror env n))
               | _ \<Rightarrow> throw (TypeError ''%d format: a number is required'')))
          else
            ret (PDict [(''Status'', PStr ''Set meta data success.''),
                        (''Storage IP'', PStr (ip_addr serv))]))))))"

definition append_by_filename :: "fenv \<Rightarrow> string \<Rightarrow> string \<Rightarrow> pyval facade" where
  "append_by_filename env local_filename remote_fileid =
     (case fdfs_check_file env local_filename of
        (isfile, errmsg) \<Rightarrow>
          if \<not> isfile then throw (DataError (errmsg @ ''(append)''))
          else
            (case split_remote_fileid env remote_fileid of
               None \<Rightarrow> throw (DataError ''[-] Error: remote_file_id is invalid.(append)'')
             | Some (group_name, appended_filename) \<Rightarrow>
                 bnd Tracker_client_new (\<lambda>tc.
                 bnd (tracker_call env tc
                        (tracker_query_storage_update group_name appended_filename)) (\<lambda>serv.
                 bnd (Storage_client_new (ip_addr serv) (port serv)) (\<lambda>store.
                 storage_call env store tc
                   (storage_append_by_filename serv local_filename appended_filename))))))"

definition append_by_file :: "fenv \<Rightarrow> string \<Rightarrow> string \<Rightarrow> pyval facade" where
  "append_by_file env local_filename remote_fileid =
     (case fdfs_check_file env local_filename of
        (isfile, errmsg) \<Rightarrow>
          if \<not> isfile then throw (DataError (errmsg @ ''(append)''))
          else
            (case split_remote_fileid env remote_fileid of
               None \<Rightarrow> throw (DataError ''[-] Error: remote_file_id is invalid.(append)'')
             | Some (group_name, appended_filename) \<Rightarrow>
                 bnd Tracker_client_new (\<lambda>tc.
                 bnd (tracker_call env tc
                        (tracker_query_storage_update group_name appended_filename)) (\<lambda>serv.
                 bnd (Storage_client_new (ip_addr serv) (port serv)) (\<lambda>store.
                 storage_call env store tc
                   (storage_append_by_file serv local_filename appended_filename))))))"

definition append_by_buffer :: "fenv \<Rightarrow> string option \<Rightarrow> string \<Rightarrow> pyval facade" where
  "append_by_buffer env file_buffer remote_fileid =
     (if falsy file_buffer then throw (DataError ''[-] Error: file_buffer can not be null.'')
      else
        (case split_remote_fileid env remote_fileid of
           None \<Rightarrow> throw (DataError ''[-] Error: remote_file_id is invalid.(append)'')
         | Some (group_name, appended_filename) \<Rightarrow>
             bnd Tracker_client_new (\<lambda>tc.
             bnd (tracker_call env tc
                    (tracker_query_storage_update group_name appended_filename)) (\<lambda>serv.
             bnd (Storage_client_new (ip_addr serv) (port serv)) (\<lambda>store.
             storage_call env store tc
               (storage_append_by_buffer serv (the file_buffer) appended_filename))))))"

definition truncate_file :: "fenv \<Rightarrow> int \<Rightarrow> string \<Rightarrow> pyval facade" where
  "truncate_file env truncated_filesize appender_fileid =
     (let trunc_filesize = truncated_filesize in
      case split_remote_fileid env appender_fileid of
        None \<Rightarrow> throw (DataError ''[-] Error: appender_fileid is invalid.(truncate)'')
      | Some (group_name, appender_filename) \<Rightarrow>
          bnd Tracker_client_new (\<lambda>tc.
          bnd (tracker_call env tc (tracker_query_storage_update group_name appender_filename))
            (\<lambda>serv.
          bnd (Storage_client_new (ip_addr serv) (port serv)) (\<lambda>store.
          storage_call env store tc
            (storage_truncate_file serv trunc_filesize appender_filename)))))"

text \<open>
  The modify operations: \<open>os.stat(filename).st_size\<close> reads the global name \<open>os\<close>
  right after the file check; \<open>file_offset\<close> is \<open>offset\<close> when \<open>offset\<close> is zero and
  \<open>0\<close> otherwise.
\<close>

definition modify_by_filename :: "fenv \<Rightarrow> string \<Rightarrow> string \<Rightarrow> int \<Rightarrow> pyval facade" where
  "modify_by_filename env filename appender_fileid offset =
     (case fdfs_check_file env filename of
        (isfile, errmsg) \<Rightarrow>
          if \<not> isfile then throw (DataError (errmsg @ ''(modify)''))
          else
            bnd (global_name ''os'') (\<lambda>u.
            bnd (\<lambda>s. (os_stat_size env filename, s)) (\<lambda>filesize.
              (case split_remote_fileid env appender_fileid of
                 None \<Rightarrow> throw (DataError ''[-] Error: remote_fileid is invalid.(modify)'')
               | Some (group_name, appender_filename) \<Rightarrow>
                   let file_offset = (if offset = 0 then offset else 0) in
                   bnd Tracker_client_new (\<lambda>tc.
                   bnd (tracker_call env tc
                          (tracker_query_storage_update group_name appender_filename)) (\<lambda>serv.
                   bnd (Storage_client_new (ip_addr serv) (port serv)) (\<lambda>store.
                   storage_call env store tc
                     (storage_modify_by_filename serv filename file_offset filesize
                        appender_filename))))))))"

definition modify_by_file :: "fenv \<Rightarrow> string \<Rightarrow> string \<Rightarrow> int \<Rightarrow> pyval facade" where
  "modify_by_file env filename appender_fileid offset =
     (case fdfs_check_file env filename of
        (isfile, errmsg) \<Rightarrow>
          if \<not> isfile then throw (DataError (errmsg @ ''(modify)''))
          else
            bnd (global_name ''os'') (\<lambda>u.
            bnd (\<lambda>s. (os_stat_size env filename, s)) (\<lambda>filesize.
              (case split_remote_fileid env appender_fileid of
                 None \<Rightarrow> throw (DataError ''[-] Error: remote_fileid is invalid.(modify)'')
               | Some (group_name, appender_filename) \<Rightarrow>
                   let file_offset = (if offset = 0 then offset else 0) in
                   bnd Tracker_client_new (\<lambda>tc.
                   bnd (tracker_call env tc
                          (tracker_query_storage_update group_name appender_filename)) (\<lambda>serv.
                   bnd (Storage_client_new (ip_addr serv) (port serv)) (\<lambda>store.
                   storage_call env store tc
                     (storage_modify_by_file serv filename file_offset filesize
                        appender_filename))))))))"

definition modify_by_buffer :: "fenv \<Rightarrow> string option \<Rightarrow> string \<Rightarrow> int \<Rightarrow> pyval facade" where
  "modify_by_buffer env filebuffer appender_fileid offset =
     (if falsy filebuffer
      then throw (DataError ''[-] Error: filebuffer can not be null.(modify)'')
      else
        let filesize = int (length (the filebuffer)) in
        (case split_remote_fileid env appender_fileid of
           None \<Rightarrow> throw (DataError ''[-] Error: remote_fileid is invalid.(modify)'')
         | Some (group_name, appender_filename) \<Rightarrow>
             let file_offset = (if offset = 0 then offset else 0) in
             bnd Tracker_client_new (\<lambda>tc.
             bnd (tracker_call env tc
                    (tracker_query_storage_update group_name appender_filename)) (\<lambda>serv.
             bnd (Storage_client_new (ip_addr serv) (port serv)) (\<lambda>store.
             storage_call env store tc
               (storage_modify_by_buffer serv (the filebuffer) file_offset filesize
                  appender_filename))))))"

section \<open>Sample surroundings of the facade\<close>

text \<open>
  Modelled from the spec: the file id parser \<open>split_remote_fileid\<close> of
  \<open>fdfs_client.utils\<close>, which is not among the sources. The spec has it convert
  \<open>"group/relative/path"\<close> into group name and file name and fail on a string
  without \<open>/\<close>. It is used in the sample surroundings only.
\<close>

fun split_at_slash :: "string \<Rightarrow> (string \<times> string) option" where
  "split_at_slash [] = None"
| "split_at_slash (c # cs) =
     (if c = CHR ''/'' then Some ([], cs)
      else (case split_at_slash cs of None \<Rightarrow> None | Some (g, f) \<Rightarrow> Some (c # g, f)))"

text \<open>
  One local file exists (3 bytes); every tracker query resolves to the storage node
  \<open>10.0.0.2:23000\<close>; \<open>storage_set_metadata\<close> answers status 2, every other storage
  call an empty dictionary.
\<close>

definition serv1 :: store_serv where
  "serv1 = \<lparr>ip_addr = ''10.0.0.2'', port = 23000\<rparr>"

definition fenv1 :: fenv where
  "fenv1 =
     \<lparr>split_remote_fileid = split_at_slash,
      fdfs_check_file =
        (\<lambda>f. if f = ''/tmp/a.bin'' then (True, [])
             else (False, ''[-] Error: '' @ f @ '' is not a file.'')),
      os_stat_size = (\<lambda>f. Inr 3),
      os_strerror = (\<lambda>n. ''No such file or directory''),
      tracker_reply = (\<lambda>t req. Inr serv1),
      storage_reply =
        (\<lambda>t req. case req of
                    storage_set_metadata sv f m \<Rightarrow> Inr (PInt 2)
                  | _ \<Rightarrow> Inr (PDict []))\<rparr>"

definition fid1 :: string where
  "fid1 = ''group1/M00/00/00/a.bin''"

text \<open>Two facade calls in a row: the second runs when the first has returned.\<close>

definition and_then :: "'a facade \<Rightarrow> 'b facade \<Rightarrow> 'b facade" where
  "and_then m1 m2 = bnd m1 (\<lambda>x. m2)"

definition client0 :: Fdfs_client where
  "client0 = Fdfs_client_init (Some 30)"

section \<open>Sample environments\<close>

text \<open>
  Concrete surroundings at which the theorems below are instantiated: a process with
  pid 1 and one tracker endpoint; \<open>env_up\<close> accepts every connection (the socket
  handle is the attempt number), \<open>env_flaky\<close> refuses the first two attempts,
  \<open>env_down\<close> refuses all of them.
\<close>

definition kw1 :: conn_kwargs where
  "kw1 = \<lparr>kw_host_tuple = Some [(''10.0.0.1'', 22122)], kw_timeout = Some 30\<rparr>"

definition env_up :: env where
  "env_up = \<lparr>getpid = 1, random_choice = (\<lambda>t. 0),
             create_connection = (\<lambda>t ep tmo. Inr t), sock_close = (\<lambda>s. None)\<rparr>"

definition env_flaky :: env where
  "env_flaky = \<lparr>getpid = 1, random_choice = (\<lambda>t. 0),
     create_connection =
       (\<lambda>t ep tmo. if t < 2 then Inl (SocketError [''111'', ''Connection refused''])
                    else Inr t),
     sock_close = (\<lambda>s. None)\<rparr>"

definition env_down :: env where
  "env_down = \<lparr>getpid = 1, random_choice = (\<lambda>t. 0),
     create_connection = (\<lambda>t ep tmo. Inl (SocketError [''timed out''])),
     sock_close = (\<lambda>s. None)\<rparr>"

definition world0 :: world where
  "world0 = \<lparr>heap = (\<lambda>r. None), next_ref = 0, clock = 0\<rparr>"

definition pool1 :: ConnectionPool where
  "pool1 = ConnectionPool_init env_up ''Tracker Pool'' None False kw1"

definition pool_neg :: ConnectionPool where
  "pool_neg = ConnectionPool_init env_up ''Tracker Pool'' (Some (- 1)) False kw1"

definition ops1 :: "(env \<times> pool_op) list" where
  "ops1 = [(env_up, Get_connection), (env_up, Get_connection), (env_up, Release 0),
           (env_up, Remove 1), (env_up, Get_connection)]"

definition conn1 :: Connection where
  "conn1 = \<lparr>pid = 1, host_tuple = Some [(''10.0.0.1'', 22122)], timeout = Some 30,
            remote_addr = Some ''10.0.0.1'', remote_port = Some 22122, sock = Some 0\<rparr>"

text \<open>
  A world with one connected connection (reference 0), a pool holding it idle, and a
  pool of capacity one holding it in use.
\<close>

definition world1 :: world where
  "world1 = \<lparr>heap = (\<lambda>r. if r = 0 then Some conn1 else None), next_ref = 1, clock = 1\<rparr>"

definition pool_idle :: ConnectionPool where
  "pool_idle = pool1\<lparr>conns_created := 1, conns_available := [0]\<rparr>"

definition pool_full :: ConnectionPool where
  "pool_full = (ConnectionPool_init env_up ''Storage Pool'' (Some 1) False kw1)
                 \<lparr>conns_created := 1, conns_inuse := {0}\<rparr>"

section \<open>Properties of Connection\<close>

lemma connect_live: "sock c \<noteq> None \<Longrightarrow> Connection_connect e t c = (Inr (), c, t)"
  by (simp add: Connection_connect_def)

lemma connect_success:
  assumes "sock c = None" "Connection_connect e t c = (Inr u, c', t')"
  shows "\<exists>hs a p s. host_tuple c = Some hs \<and> (a, p) \<in> set hs \<and>
           create_connection e t (a, p) (timeout c) = Inr s \<and>
           c' = c\<lparr>remote_addr := Some a, remote_port := Some p, sock := Some s\<rparr> \<and>
           t' = Suc t"
proof -
  from assms obtain hs where hs: "host_tuple c = Some hs" "hs \<noteq> []"
    by (auto simp: Connection_connect_def Connection_private_connect_def Let_def
        split: option.splits if_splits error.splits sum.splits)
  define ep where "ep = hs ! (random_choice e t mod length hs)"
  have mem: "ep \<in> set hs" unfolding ep_def using hs by simp
  from assms hs obtain s where "create_connection e t ep (timeout c) = Inr s"
     "c' = c\<lparr>remote_addr := Some (fst ep), remote_port := Some (snd ep), sock := Some s\<rparr>"
     "t' = Suc t"
    by (auto simp: Connection_connect_def Connection_private_connect_def Let_def ep_def
        split: option.splits if_splits error.splits sum.splits)
  with hs mem show ?thesis
    by (intro exI[of _ hs] exI[of _ "fst ep"] exI[of _ "snd ep"] exI[of _ s]) simp
qed

lemma connect_twice_same: "connect_twice e t c = Connection_connect e t c"
proof (cases "sock c = None")
  case False
  then show ?thesis by (simp add: connect_twice_def Connection_connect_def)
next
  case True
  show ?thesis
  proof (cases "Connection_connect e t c")
    case (fields res c' t')
    show ?thesis
    proof (cases res)
      case (Inl err)
      with fields show ?thesis by (simp add: connect_twice_def)
    next
      case (Inr u)
      with fields True obtain s where "sock c' = Some s"
        using connect_success[of c e t u c' t'] by auto
      then have "Connection_connect e t' c' = (Inr (), c', t')" by (simp add: connect_live)
      with fields Inr show ?thesis by (simp add: connect_twice_def)
    qed
  qed
qed

text \<open>
  Claim C10. \<open>Connection.connect\<close> is idempotent. On an instance that already has a
  socket it returns at once and changes nothing (socket, remote address and remote
  port included). On an instance without a socket, a call that returns has opened a
  socket to one endpoint of \<open>host_tuple\<close>, stored that endpoint as remote address and
  port and the socket in the \<open>sock\<close> field. Calling \<open>connect\<close> twice in a row has
  the same outcome as calling it once, whether the first call returns or raises.
\<close>

theorem connect_idempotent:
  "(sock c \<noteq> None \<longrightarrow> Connection_connect e t c = (Inr (), c, t)) \<and>
   (sock c = None \<and> Connection_connect e t c = (Inr u, c', t') \<longrightarrow>
      (\<exists>hs a p s. host_tuple c = Some hs \<and> (a, p) \<in> set hs \<and>
         create_connection e t (a, p) (timeout c) = Inr s \<and>
         c' = c\<lparr>remote_addr := Some a, remote_port := Some p, sock := Some s\<rparr>)) \<and>
   connect_twice e t c = Connection_connect e t c"
proof (intro conjI impI)
  assume "sock c \<noteq> None"
  then show "Connection_connect e t c = (Inr (), c, t)" by (rule connect_live)
next
  assume "sock c = None \<and> Connection_connect e t c = (Inr u, c', t')"
  then show "\<exists>hs a p s. host_tuple c = Some hs \<and> (a, p) \<in> set hs \<and>
         create_connection e t (a, p) (timeout c) = Inr s \<and>
         c' = c\<lparr>remote_addr := Some a, remote_port := Some p, sock := Some s\<rparr>"
    using connect_success[of c e t u c' t'] by blast
next
  show "connect_twice e t c = Connection_connect e t c" by (rule connect_twice_same)
qed

theorem connect_idempotent_witness:
  "sock conn1 \<noteq> None \<and> Connection_connect env_down 5 conn1 = (Inr (), conn1, 5) \<and>
   sock (Connection_init env_up kw1) = None \<and>
   Connection_connect env_up 0 (Connection_init env_up kw1) = (Inr (), conn1, 1) \<and>
   connect_twice env_up 0 (Connection_init env_up kw1) = (Inr (), conn1, 1)"
proof -
  have live: "sock conn1 \<noteq> None" by (simp add: conn1_def)
  have fresh: "sock (Connection_init env_up kw1) = None" by (simp add: Connection_init_def)
  have run: "Connection_connect env_up 0 (Connection_init env_up kw1) = (Inr (), conn1, 1)"
    by (simp add: Connection_connect_def Connection_private_connect_def Connection_init_def
        env_up_def kw1_def conn1_def)
  from connect_idempotent[of conn1 env_down 5] live
  have a: "Connection_connect env_down 5 conn1 = (Inr (), conn1, 5)" by blast
  from connect_idempotent[of "Connection_init env_up kw1" env_up 0] run
  have b: "connect_twice env_up 0 (Connection_init env_up kw1) = (Inr (), conn1, 1)" by simp
  from live a fresh run b show ?thesis by blast
qed

section \<open>Properties of make_conn\<close>

lemma errormessage_nonempty: "args \<noteq> [] \<Longrightarrow> \<exists>m. Connection_errormessage c args = Inr m"
  by (simp add: Connection_errormessage_def)

lemma connect_fails:
  assumes "transport_fails e kw t"
  shows "\<exists>m c'. Connection_connect e t (Connection_init e kw) = (Inl (ConnectionError m), c', Suc t)"
proof -
  from assms obtain hs args where hs: "kw_host_tuple kw = Some hs" "hs \<noteq> []"
    and cc: "create_connection e t (hs ! (random_choice e t mod length hs)) (kw_timeout kw)
             = Inl (SocketError args)" and args: "args \<noteq> []"
    by (auto simp: transport_fails_def split: option.splits sum.splits error.splits)
  define c' where "c' = (Connection_init e kw)\<lparr>remote_addr := Some (fst (hs ! (random_choice e t mod length hs))),
     remote_port := Some (snd (hs ! (random_choice e t mod length hs)))\<rparr>"
  from errormessage_nonempty[OF args] obtain m where m: "Connection_errormessage c' args = Inr m"
    by blast
  have "Connection_connect e t (Connection_init e kw) = (Inl (ConnectionError m), c', Suc t)"
    using hs cc m
    by (simp add: Connection_connect_def Connection_private_connect_def Connection_init_def
        Let_def c'_def)
  then show ?thesis by blast
qed

lemma connect_succeeds:
  assumes "transport_succeeds e kw t"
  shows "\<exists>c' s. Connection_connect e t (Connection_init e kw) = (Inr (), c', Suc t) \<and>
           sock c' = Some s"
proof -
  from assms obtain hs s where hs: "kw_host_tuple kw = Some hs" "hs \<noteq> []"
    and cc: "create_connection e t (hs ! (random_choice e t mod length hs)) (kw_timeout kw)
             = Inr s"
    by (auto simp: transport_succeeds_def split: option.splits sum.splits)
  then show ?thesis
    by (simp add: Connection_connect_def Connection_private_connect_def Connection_init_def
        Let_def)
qed

lemma loop_fail_step:
  assumes "transport_fails e (conn_kwargs p) (clock w)"
  shows "\<exists>w'. make_conn_loop e (Suc n) p w = make_conn_loop e n p w' \<and>
           clock w' = Suc (clock w)"
proof -
  from connect_fails[OF assms] obtain m c' where
    "Connection_connect e (clock w) (Connection_init e (conn_kwargs p))
       = (Inl (ConnectionError m), c', Suc (clock w))" by blast
  then have "make_conn_loop e (Suc n) p w =
      make_conn_loop e n p (w\<lparr>heap := (heap w)(next_ref w \<mapsto> c'),
         next_ref := Suc (next_ref w), clock := Suc (clock w)\<rparr>)"
    by (simp add: Let_def)
  then show ?thesis by (intro exI conjI, assumption) simp
qed

lemma loop_success_step:
  assumes "transport_succeeds e (conn_kwargs p) (clock w)"
  shows "\<exists>w' c s. make_conn_loop e (Suc n) p w =
            (Inr (next_ref w), p\<lparr>conns_created := conns_created p + 1\<rparr>, w') \<and>
            heap w' (next_ref w) = Some c \<and> sock c = Some s"
proof -
  from connect_succeeds[OF assms] obtain c' s where
    "Connection_connect e (clock w) (Connection_init e (conn_kwargs p))
       = (Inr (), c', Suc (clock w))" "sock c' = Some s" by blast
  then show ?thesis by (simp add: Let_def)
qed

lemma retry_third_attempt:
  assumes cap: "conns_created p < max_conn p"
    and f1: "transport_fails e (conn_kwargs p) (clock w)"
    and f2: "transport_fails e (conn_kwargs p) (clock w + 1)"
    and s3: "transport_succeeds e (conn_kwargs p) (clock w + 2)"
  shows "\<exists>r w' c s. ConnectionPool_make_conn e p w =
            (Inr r, p\<lparr>conns_created := conns_created p + 1\<rparr>, w') \<and>
            heap w' r = Some c \<and> sock c = Some s"
proof -
  from loop_fail_step[OF f1, of 2] obtain w1 where
    w1: "make_conn_loop e 3 p w = make_conn_loop e 2 p w1" "clock w1 = Suc (clock w)"
    by (auto simp: numeral_3_eq_3 numeral_2_eq_2)
  from f2 w1 have "transport_fails e (conn_kwargs p) (clock w1)" by simp
  from loop_fail_step[OF this, of 1] obtain w2 where
    w2: "make_conn_loop e 2 p w1 = make_conn_loop e 1 p w2" "clock w2 = Suc (clock w1)"
    by (auto simp: numeral_2_eq_2)
  from s3 w1 w2 have "transport_succeeds e (conn_kwargs p) (clock w2)" by simp
  from loop_success_step[OF this, of 0] obtain w' c s where
    "make_conn_loop e 1 p w2 = (Inr (next_ref w2), p\<lparr>conns_created := conns_created p + 1\<rparr>, w')"
    "heap w' (next_ref w2) = Some c" "sock c = Some s" by auto
  with w1 w2 cap show ?thesis by (simp add: ConnectionPool_make_conn_def)
qed

lemma retry_three_failures:
  assumes f1: "transport_fails e (conn_kwargs p) (clock w)"
    and f2: "transport_fails e (conn_kwargs p) (clock w + 1)"
    and f3: "transport_fails e (conn_kwargs p) (clock w + 2)"
  shows "\<exists>m w'. ConnectionPool_make_conn e p w = (Inl (ConnectionError m), p, w')"
proof (cases "conns_created p \<ge> max_conn p")
  case True
  then show ?thesis by (simp add: ConnectionPool_make_conn_def)
next
  case False
  from loop_fail_step[OF f1, of 2] obtain w1 where
    w1: "make_conn_loop e 3 p w = make_conn_loop e 2 p w1" "clock w1 = Suc (clock w)"
    by (auto simp: numeral_3_eq_3 numeral_2_eq_2)
  from f2 w1 have "transport_fails e (conn_kwargs p) (clock w1)" by simp
  from loop_fail_step[OF this, of 1] obtain w2 where
    w2: "make_conn_loop e 2 p w1 = make_conn_loop e 1 p w2" "clock w2 = Suc (clock w1)"
    by (auto simp: numeral_2_eq_2)
  from f3 w1 w2 have "transport_fails e (conn_kwargs p) (clock w2)" by simp
  from loop_fail_step[OF this, of 0] obtain w3 where
    "make_conn_loop e 1 p w2 = make_conn_loop e 0 p w3" by auto
  with w1 w2 False show ?thesis by (simp add: ConnectionPool_make_conn_def)
qed

text \<open>
  Claim C2. When the pool is below capacity and the transport refuses the first two
  connect attempts of a \<open>make_conn\<close> call and accepts the third, the call returns a
  new connection whose socket is set, and the pool's created count has grown by
  exactly one (nothing else in the pool changes). When the transport refuses three
  attempts in a row, the call raises ConnectionError and leaves the pool, its created
  count included, as it was.
\<close>

theorem make_conn_retry:
  "(conns_created p < max_conn p \<and> transport_fails e (conn_kwargs p) (clock w) \<and>
    transport_fails e (conn_kwargs p) (clock w + 1) \<and>
    transport_succeeds e (conn_kwargs p) (clock w + 2) \<longrightarrow>
      (\<exists>r w' c s. ConnectionPool_make_conn e p w =
            (Inr r, p\<lparr>conns_created := conns_created p + 1\<rparr>, w') \<and>
            heap w' r = Some c \<and> sock c = Some s)) \<and>
   (transport_fails e (conn_kwargs p) (clock w) \<and>
    transport_fails e (conn_kwargs p) (clock w + 1) \<and>
    transport_fails e (conn_kwargs p) (clock w + 2) \<longrightarrow>
      (\<exists>m w'. ConnectionPool_make_conn e p w = (Inl (ConnectionError m), p, w')))"
  using retry_third_attempt[of p e w] retry_three_failures[of e p w] by blast

theorem make_conn_retry_witness:
  "conns_created pool1 < max_conn pool1 \<and>
   transport_fails env_flaky (conn_kwargs pool1) (clock world0) \<and>
   transport_fails env_flaky (conn_kwargs pool1) (clock world0 + 1) \<and>
   transport_succeeds env_flaky (conn_kwargs pool1) (clock world0 + 2) \<and>
   (\<exists>r w' c s. ConnectionPool_make_conn env_flaky pool1 world0 =
            (Inr r, pool1\<lparr>conns_created := conns_created pool1 + 1\<rparr>, w') \<and>
            heap w' r = Some c \<and> sock c = Some s) \<and>
   transport_fails env_down (conn_kwargs pool1) (clock world0) \<and>
   transport_fails env_down (conn_kwargs pool1) (clock world0 + 1) \<and>
   transport_fails env_down (conn_kwargs pool1) (clock world0 + 2) \<and>
   (\<exists>m w'. ConnectionPool_make_conn env_down pool1 world0 = (Inl (ConnectionError m), pool1, w'))"
proof -
  have cap: "conns_created pool1 < max_conn pool1"
    by (simp add: pool1_def ConnectionPool_init_def)
  have f: "transport_fails env_flaky (conn_kwargs pool1) (clock world0)"
    "transport_fails env_flaky (conn_kwargs pool1) (clock world0 + 1)"
    "transport_succeeds env_flaky (conn_kwargs pool1) (clock world0 + 2)"
    by (simp_all add: transport_fails_def transport_succeeds_def env_flaky_def kw1_def
        pool1_def ConnectionPool_init_def world0_def)
  have d: "transport_fails env_down (conn_kwargs pool1) (clock world0)"
    "transport_fails env_down (conn_kwargs pool1) (clock world0 + 1)"
    "transport_fails env_down (conn_kwargs pool1) (clock world0 + 2)"
    by (simp_all add: transport_fails_def env_down_def kw1_def pool1_def
        ConnectionPool_init_def world0_def)
  from make_conn_retry[of pool1 env_flaky world0] cap f
  have a: "\<exists>r w' c s. ConnectionPool_make_conn env_flaky pool1 world0 =
            (Inr r, pool1\<lparr>conns_created := conns_created pool1 + 1\<rparr>, w') \<and>
            heap w' r = Some c \<and> sock c = Some s" by blast
  from make_conn_retry[of pool1 env_down world0] d
  have b: "\<exists>m w'. ConnectionPool_make_conn env_down pool1 world0 =
            (Inl (ConnectionError m), pool1, w')" by blast
  from cap f d a b show ?thesis by blast
qed

section \<open>Properties of the pool\<close>

lemma disconnect_all_next_ref:
  "disconnect_all e rs w = (res, w') \<Longrightarrow> next_ref w' = next_ref w"
proof (induction rs arbitrary: w)
  case Nil
  then show ?case by simp
next
  case (Cons r rs)
  show ?case
  proof (cases "heap w r")
    case None
    with Cons.prems show ?thesis by simp
  next
    case (Some c)
    obtain rc c' where d: "Connection_disconnect e c = (rc, c')" by (cases "Connection_disconnect e c")
    show ?thesis
    proof (cases rc)
      case (Inl err)
      with Cons.prems Some d show ?thesis by auto
    next
      case (Inr u)
      with Cons.prems Some d
      have "disconnect_all e rs (w\<lparr>heap := (heap w)(r \<mapsto> c')\<rparr>) = (res, w')" by simp
      from Cons.IH[OF this] show ?thesis by simp
    qed
  qed
qed

lemma init_inv:
  "(b \<longrightarrow> max_conn_arg_ok mc) \<Longrightarrow> pool_inv b (ConnectionPool_init e name mc dbg kw) w"
  by (auto simp: pool_inv_def ConnectionPool_init_def max_conn_arg_ok_def split: option.splits)

lemma inv_max_nonneg: "pool_inv b p w \<Longrightarrow> b \<Longrightarrow> 0 \<le> max_conn p"
  by (auto simp: pool_inv_def)

lemma check_pid_same: "pool_pid p = getpid e \<Longrightarrow> ConnectionPool_check_pid e p w = (Inr (), p, w)"
  by (simp add: ConnectionPool_check_pid_def)

lemma check_pid_inv:
  assumes "pool_inv b p w" "ConnectionPool_check_pid e p w = (res, p1, w1)"
  shows "pool_inv b p1 w1"
proof (cases "pool_pid p = getpid e")
  case True
  with assms show ?thesis by (simp add: ConnectionPool_check_pid_def)
next
  case False
  obtain rd wd where d: "ConnectionPool_destroy e p w = (rd, wd)"
    by (cases "ConnectionPool_destroy e p w")
  then have nr: "next_ref wd = next_ref w"
    by (auto simp: ConnectionPool_destroy_def dest: disconnect_all_next_ref)
  show ?thesis
  proof (cases rd)
    case (Inl err)
    with assms False d have "p1 = p" "w1 = wd" by (simp_all add: ConnectionPool_check_pid_def)
    with assms(1) nr show ?thesis by (auto simp: pool_inv_def)
  next
    case (Inr u)
    with assms False d
    have "p1 = ConnectionPool_init e (pool_name p) (Some (max_conn p)) False (conn_kwargs p)"
      by (simp add: ConnectionPool_check_pid_def)
    with inv_max_nonneg[OF assms(1)] show ?thesis
      by (simp add: init_inv max_conn_arg_ok_def)
  qed
qed

lemma make_conn_loop_result:
  "make_conn_loop e n p w = (res, p', w') \<Longrightarrow>
     next_ref w \<le> next_ref w' \<and>
     (case res of
        Inl err \<Rightarrow> p' = p
      | Inr r \<Rightarrow> p' = p\<lparr>conns_created := conns_created p + 1\<rparr> \<and>
                 next_ref w \<le> r \<and> r < next_ref w')"
proof (induction n arbitrary: w)
  case 0
  then show ?case by auto
next
  case (Suc n)
  obtain rc c' t' where c: "Connection_connect e (clock w) (Connection_init e (conn_kwargs p)) = (rc, c', t')"
    by (cases "Connection_connect e (clock w) (Connection_init e (conn_kwargs p))")
  define w1 where "w1 = w\<lparr>heap := (heap w)(next_ref w \<mapsto> c'), next_ref := Suc (next_ref w), clock := t'\<rparr>"
  show ?case
  proof (cases rc)
    case (Inr u)
    with Suc.prems c show ?thesis by (auto simp: Let_def)
  next
    case (Inl err)
    show ?thesis
    proof (cases "\<exists>m. err = ConnectionError m")
      case True
      with Suc.prems c Inl have "make_conn_loop e n p w1 = (res, p', w')"
        by (auto simp: Let_def w1_def)
      from Suc.IH[OF this] show ?thesis by (auto simp: w1_def split: sum.splits)
    next
      case False
      with Suc.prems c Inl show ?thesis by (cases err) (auto simp: Let_def)
    qed
  qed
qed

lemma make_conn_result:
  assumes "ConnectionPool_make_conn e p w = (res, p', w')"
  shows "next_ref w \<le> next_ref w' \<and>
     (case res of
        Inl err \<Rightarrow> p' = p
      | Inr r \<Rightarrow> conns_created p < max_conn p \<and>
                 p' = p\<lparr>conns_created := conns_created p + 1\<rparr> \<and>
                 next_ref w \<le> r \<and> r < next_ref w')"
proof (cases "conns_created p \<ge> max_conn p")
  case True
  with assms show ?thesis by (auto simp: ConnectionPool_make_conn_def)
next
  case False
  with assms have "make_conn_loop e 3 p w = (res, p', w')"
    by (simp add: ConnectionPool_make_conn_def)
  from make_conn_loop_result[OF this] False show ?thesis by (auto split: sum.splits)
qed

lemma inv_refs_below:
  "pool_inv b p w \<Longrightarrow> r \<in> conns_inuse p \<or> r \<in> set (conns_available p) \<Longrightarrow> r < next_ref w"
  by (auto simp: pool_inv_def)

lemma inv_world_mono:
  assumes "pool_inv b p w" "next_ref w \<le> next_ref w'"
  shows "pool_inv b p w'"
proof -
  have "r < next_ref w'" if "r \<in> conns_inuse p \<union> set (conns_available p)" for r
    using inv_refs_below[OF assms(1), of r] that assms(2) by auto
  with assms(1) show ?thesis by (auto simp: pool_inv_def)
qed

lemma pop_inv:
  assumes "pool_inv b p w" "conns_available p \<noteq> []"
  shows "pool_inv b (p\<lparr>conns_available := butlast (conns_available p),
                     conns_inuse := insert (last (conns_available p)) (conns_inuse p)\<rparr>) w"
proof -
  obtain xs x where xs: "conns_available p = xs @ [x]"
    using assms(2) by (metis append_butlast_last_id)
  from assms(1) xs have "x \<notin> conns_inuse p" "x \<notin> set xs" "finite (conns_inuse p)"
    by (auto simp: pool_inv_def)
  with assms(1) xs show ?thesis by (auto simp: pool_inv_def)
qed

lemma fresh_inv:
  assumes "pool_inv b p w" "next_ref w \<le> r" "r < next_ref w'" "conns_created p < max_conn p"
  shows "pool_inv b (p\<lparr>conns_created := conns_created p + 1,
                     conns_inuse := insert r (conns_inuse p)\<rparr>) w'"
proof -
  have fin: "finite (conns_inuse p)" using assms(1) by (auto simp: pool_inv_def)
  have notin: "r \<notin> conns_inuse p" "r \<notin> set (conns_available p)"
    using inv_refs_below[OF assms(1), of r] assms(2) by auto
  have below: "x < next_ref w'" if "x \<in> conns_inuse p \<union> set (conns_available p)" for x
    using inv_refs_below[OF assms(1), of x] that assms(2,3) by auto
  from assms(1,3,4) fin notin below show ?thesis by (auto simp: pool_inv_def)
qed

lemma get_connection_inv:
  assumes inv: "pool_inv b p w" and g: "ConnectionPool_get_connection e p w = (res, p', w')"
  shows "pool_inv b p' w'"
proof -
  obtain rc p1 w1 where c: "ConnectionPool_check_pid e p w = (rc, p1, w1)"
    by (cases "ConnectionPool_check_pid e p w")
  from check_pid_inv[OF inv c] have inv1: "pool_inv b p1 w1" .
  show ?thesis
  proof (cases rc)
    case (Inl err)
    with g c inv1 show ?thesis by (simp add: ConnectionPool_get_connection_def)
  next
    case (Inr u)
    show ?thesis
    proof (cases "conns_available p1 = []")
      case False
      with g c Inr have "p' = p1\<lparr>conns_available := butlast (conns_available p1),
                     conns_inuse := insert (last (conns_available p1)) (conns_inuse p1)\<rparr>" "w' = w1"
        by (simp_all add: ConnectionPool_get_connection_def Let_def)
      with pop_inv[OF inv1 False] show ?thesis by simp
    next
      case True
      obtain rm p2 w2 where m: "ConnectionPool_make_conn e p1 w1 = (rm, p2, w2)"
        by (cases "ConnectionPool_make_conn e p1 w1")
      note mr = make_conn_result[OF m]
      note g' = g[unfolded ConnectionPool_get_connection_def]
      show ?thesis
      proof (cases rm)
        case (Inl err)
        with g' c \<open>rc = Inr u\<close> True m have "p' = p2" "w' = w2" by simp_all
        moreover from mr Inl have "p2 = p1" "next_ref w1 \<le> next_ref w2" by simp_all
        ultimately show ?thesis using inv1 by (simp add: inv_world_mono)
      next
        case (Inr r)
        with g' c \<open>rc = Inr u\<close> True m
        have "p' = p2\<lparr>conns_inuse := insert r (conns_inuse p2)\<rparr>" "w' = w2"
          by simp_all
        moreover from mr Inr have "p2 = p1\<lparr>conns_created := conns_created p1 + 1\<rparr>"
          "next_ref w1 \<le> r" "r < next_ref w2" "conns_created p1 < max_conn p1" by simp_all
        ultimately show ?thesis using fresh_inv[OF inv1, of r w2] by simp
      qed
    qed
  qed
qed

lemma release_inv:
  assumes inv: "pool_inv b p w" and g: "ConnectionPool_release e p w r = (res, p', w')"
  shows "pool_inv b p' w'"
proof -
  obtain rc p1 w1 where c: "ConnectionPool_check_pid e p w = (rc, p1, w1)"
    by (cases "ConnectionPool_check_pid e p w")
  from check_pid_inv[OF inv c] have inv1: "pool_inv b p1 w1" .
  have moved: "pool_inv b (p1\<lparr>conns_inuse := conns_inuse p1 - {r},
                   conns_available := conns_available p1 @ [r]\<rparr>) w1" if "r \<in> conns_inuse p1"
  proof -
    from inv1 that have "r \<notin> set (conns_available p1)" "finite (conns_inuse p1)"
      "card (conns_inuse p1) > 0"
      by (auto simp: pool_inv_def card_gt_0_iff)
    with inv1 that show ?thesis by (auto simp: pool_inv_def)
  qed
  show ?thesis
  proof (cases rc)
    case (Inl err)
    with g c inv1 show ?thesis by (simp add: ConnectionPool_release_def)
  next
    case (Inr u)
    show ?thesis
    proof (cases "heap w1 r")
      case None
      with g c Inr inv1 show ?thesis by (simp add: ConnectionPool_release_def)
    next
      case (Some cn)
      show ?thesis
      proof (cases "pid cn = pool_pid p1 \<and> r \<in> conns_inuse p1")
        case True
        with g c Inr Some have "p' = p1\<lparr>conns_inuse := conns_inuse p1 - {r},
                   conns_available := conns_available p1 @ [r]\<rparr>" "w' = w1"
          by (simp_all add: ConnectionPool_release_def)
        with moved True show ?thesis by simp
      next
        case False
        with g c Inr Some have "p' = p1" "w' = w1"
          by (auto simp: ConnectionPool_release_def split: if_splits)
        with inv1 show ?thesis by simp
      qed
    qed
  qed
qed

lemma remove_inv:
  assumes inv: "pool_inv b p w"
  shows "pool_inv b (ConnectionPool_remove p r) w"
proof (cases "r \<in> conns_inuse p")
  case True
  with inv have "r \<notin> set (conns_available p)" "finite (conns_inuse p)" "card (conns_inuse p) > 0"
    by (auto simp: pool_inv_def card_gt_0_iff)
  with inv True show ?thesis
    by (auto simp: pool_inv_def ConnectionPool_remove_def Let_def)
next
  case False
  show ?thesis
  proof (cases "r \<in> set (conns_available p)")
    case True
    have pos: "1 \<le> length (conns_available p)"
      using length_pos_if_in_set[OF True] by arith
    have "length (remove1 r (conns_available p)) = length (conns_available p) - 1"
      using True by (simp add: length_remove1)
    with pos have "int (length (remove1 r (conns_available p))) =
        int (length (conns_available p)) - 1" by arith
    with inv False True show ?thesis
      by (auto simp: pool_inv_def ConnectionPool_remove_def Let_def)
  next
    case False
    with \<open>r \<notin> conns_inuse p\<close> inv show ?thesis
      by (simp add: ConnectionPool_remove_def Let_def)
  qed
qed

lemma pool_step_inv:
  assumes "pool_inv b p w" "pool_step e op p w = (p', w')"
  shows "pool_inv b p' w'"
  using assms
  by (cases op)
     (auto simp: pool_step_def remove_inv split: prod.splits
           dest: get_connection_inv release_inv)

lemma pool_run_inv:
  "pool_inv b p w \<Longrightarrow> pool_run ops p w = (p', w') \<Longrightarrow> pool_inv b p' w'"
proof (induction ops arbitrary: p w)
  case Nil
  then show ?case by simp
next
  case (Cons a ops)
  obtain e op where a: "a = (e, op)" by (cases a)
  obtain p1 w1 where s: "pool_step e op p w = (p1, w1)" by (cases "pool_step e op p w")
  from pool_step_inv[OF Cons.prems(1) s] have "pool_inv b p1 w1" .
  moreover from Cons.prems(2) a s have "pool_run ops p1 w1 = (p', w')" by simp
  ultimately show ?case by (rule Cons.IH)
qed

lemma ops_pre_take: "ops_pre ops p w \<Longrightarrow> ops_pre (take k ops) p w"
proof (induction ops arbitrary: k p w)
  case Nil
  then show ?case by simp
next
  case (Cons a ops)
  obtain e op where a: "a = (e, op)" by (cases a)
  show ?case
  proof (cases k)
    case 0
    then show ?thesis by simp
  next
    case (Suc j)
    obtain p1 w1 where s: "pool_step e op p w = (p1, w1)" by (cases "pool_step e op p w")
    with Cons.prems a have "op_pre op p" "ops_pre ops p1 w1" by simp_all
    with Cons.IH[of p1 w1 j] a s Suc show ?thesis by simp
  qed
qed

text \<open>
  Claim C1, as amended. Take a pool as its constructor leaves it and any sequence
  of \<open>get_connection\<close>, \<open>release\<close> and \<open>remove\<close> calls, each made under its stated
  precondition (in any surroundings, a forked process included). After every call of
  the sequence the created count equals the number
  of connections in use plus the number of idle ones; and when the pool was
  constructed with \<open>max_conn\<close> absent, zero or positive, the created count is at most
  \<open>max_conn\<close> after every call.
\<close>

theorem pool_invariant:
  assumes "ops_pre ops (ConnectionPool_init e0 name mc dbg kw) w0"
  shows "conns_created (fst (pool_run (take k ops) (ConnectionPool_init e0 name mc dbg kw) w0))
           = int (card (conns_inuse (fst (pool_run (take k ops)
                    (ConnectionPool_init e0 name mc dbg kw) w0)))
                + length (conns_available (fst (pool_run (take k ops)
                    (ConnectionPool_init e0 name mc dbg kw) w0)))) \<and>
         (max_conn_arg_ok mc \<longrightarrow>
            conns_created (fst (pool_run (take k ops) (ConnectionPool_init e0 name mc dbg kw) w0))
              \<le> max_conn (fst (pool_run (take k ops) (ConnectionPool_init e0 name mc dbg kw) w0)))"
proof -
  define p0 where "p0 = ConnectionPool_init e0 name mc dbg kw"
  obtain p w where r: "pool_run (take k ops) p0 w0 = (p, w)"
    by (cases "pool_run (take k ops) p0 w0")
  have "pool_inv False p0 w0" unfolding p0_def by (rule init_inv) simp
  from pool_run_inv[OF this r]
  have eq: "conns_created p = int (card (conns_inuse p) + length (conns_available p))"
    by (simp add: pool_inv_def)
  have le: "conns_created p \<le> max_conn p" if "max_conn_arg_ok mc"
  proof -
    from that have "pool_inv True p0 w0" unfolding p0_def by (intro init_inv) simp
    from pool_run_inv[OF this r] show ?thesis by (simp add: pool_inv_def)
  qed
  from eq le r show ?thesis unfolding p0_def by simp
qed

lemma get1: "ConnectionPool_get_connection env_up pool1 world0 =
   (Inr 0, pool1\<lparr>conns_created := 1, conns_inuse := {0}\<rparr>,
    \<lparr>heap = (heap world0)(0 \<mapsto> conn1), next_ref = 1, clock = 1\<rparr>)"
  by (simp add: ConnectionPool_get_connection_def ConnectionPool_check_pid_def
      ConnectionPool_make_conn_def numeral_3_eq_3 Connection_connect_def
      Connection_private_connect_def Connection_init_def pool1_def ConnectionPool_init_def
      env_up_def kw1_def world0_def conn1_def Let_def)

lemmas pool_eval_defs =
  ConnectionPool_get_connection_def ConnectionPool_check_pid_def ConnectionPool_make_conn_def
  ConnectionPool_release_def ConnectionPool_remove_def ConnectionPool_init_def
  Connection_connect_def Connection_private_connect_def Connection_init_def
  pool_step_def op_pre_def numeral_3_eq_3 Let_def

lemma run_ops1:
  "ops_pre ops1 pool1 world0 \<and>
   fst (pool_run (take 5 ops1) pool1 world0) =
     pool1\<lparr>conns_created := 1, conns_available := [], conns_inuse := {0}\<rparr>"
  by (auto simp: pool_eval_defs ops1_def pool1_def env_up_def kw1_def world0_def)

theorem pool_invariant_witness:
  "ops_pre ops1 pool1 world0 \<and> max_conn_arg_ok None \<and>
   fst (pool_run (take 5 ops1) pool1 world0) =
     pool1\<lparr>conns_created := 1, conns_available := [], conns_inuse := {0}\<rparr> \<and>
   conns_created (fst (pool_run (take 5 ops1) pool1 world0))
     = int (card (conns_inuse (fst (pool_run (take 5 ops1) pool1 world0)))
           + length (conns_available (fst (pool_run (take 5 ops1) pool1 world0)))) \<and>
   conns_created (fst (pool_run (take 5 ops1) pool1 world0))
     \<le> max_conn (fst (pool_run (take 5 ops1) pool1 world0))"
proof -
  have pre: "ops_pre ops1 (ConnectionPool_init env_up ''Tracker Pool'' None False kw1) world0"
    using run_ops1 by (simp add: pool1_def)
  have ok: "max_conn_arg_ok None" by (simp add: max_conn_arg_ok_def)
  from pool_invariant[OF pre, of 5] ok run_ops1 show ?thesis
    unfolding pool1_def by blast
qed

theorem pool_invariant_counterexample:
  "ops_pre [(env_up, Get_connection)] pool_neg world0 \<and>
   \<not> conns_created (fst (pool_run [(env_up, Get_connection)] pool_neg world0))
       \<le> max_conn (fst (pool_run [(env_up, Get_connection)] pool_neg world0))"
  by (simp add: pool_eval_defs pool_neg_def env_up_def kw1_def world0_def)

lemma get_connection_inuse:
  assumes "ConnectionPool_get_connection e p w = (Inr r, p', w')"
  shows "r \<in> conns_inuse p'"
proof -
  obtain rc p1 w1 where c: "ConnectionPool_check_pid e p w = (rc, p1, w1)"
    by (cases "ConnectionPool_check_pid e p w")
  note g = assms[unfolded ConnectionPool_get_connection_def]
  show ?thesis
  proof (cases rc)
    case (Inl err)
    with g c show ?thesis by simp
  next
    case (Inr u)
    show ?thesis
    proof (cases "conns_available p1 = []")
      case False
      with g c Inr show ?thesis by (auto simp: Let_def)
    next
      case True
      obtain rm p2 w2 where m: "ConnectionPool_make_conn e p1 w1 = (rm, p2, w2)"
        by (cases "ConnectionPool_make_conn e p1 w1")
      with g c Inr True show ?thesis by (cases rm) auto
    qed
  qed
qed

lemma get_connection_new:
  assumes c: "ConnectionPool_check_pid e p w = (Inr (), p1, w1)"
    and empty: "conns_available p1 = []"
    and g: "ConnectionPool_get_connection e p w = (Inr r, p', w')"
  shows "next_ref w1 \<le> r \<and> r < next_ref w' \<and> conns_created p' = conns_created p1 + 1"
proof -
  obtain rm p2 w2 where m: "ConnectionPool_make_conn e p1 w1 = (rm, p2, w2)"
    by (cases "ConnectionPool_make_conn e p1 w1")
  note mr = make_conn_result[OF m]
  note g' = g[unfolded ConnectionPool_get_connection_def]
  show ?thesis
  proof (cases rm)
    case (Inl err)
    with g' c empty m show ?thesis by simp
  next
    case (Inr r')
    with g' c empty m have "r' = r" "p' = p2\<lparr>conns_inuse := insert r (conns_inuse p2)\<rparr>"
      "w' = w2" by auto
    with mr Inr show ?thesis by simp
  qed
qed

text \<open>
  Claim C6. \<open>get_connection\<close> first checks the process id; let \<open>p1\<close>, \<open>w1\<close> be the
  pool and the store after that check (they are the pool and the store of the call when
  the calling process is the one the pool belongs to). If \<open>p1\<close> has an idle
  connection, the call returns the last one of the idle list, takes it off the list
  and changes neither the created count nor the store (no connection is created). If
  none is idle, the call is \<open>make_conn\<close>: a connection it returns is a newly
  allocated one and the created count has grown by one; with none idle and the created
  count at \<open>max_conn\<close> or above it raises ConnectionError and leaves the pool as it
  was. Every connection the call returns is in the in-use set afterwards.
\<close>

theorem get_connection_spec:
  "(ConnectionPool_check_pid e p w = (Inr (), p1, w1) \<longrightarrow>
      (pool_pid p = getpid e \<longrightarrow> p1 = p \<and> w1 = w) \<and>
      (conns_available p1 \<noteq> [] \<longrightarrow>
         ConnectionPool_get_connection e p w =
           (Inr (last (conns_available p1)),
            p1\<lparr>conns_available := butlast (conns_available p1),
                conns_inuse := insert (last (conns_available p1)) (conns_inuse p1)\<rparr>, w1)) \<and>
      (conns_available p1 = [] \<longrightarrow>
         ConnectionPool_get_connection e p w =
           (case ConnectionPool_make_conn e p1 w1 of
              (Inl err, p2, w2) \<Rightarrow> (Inl err, p2, w2)
            | (Inr r2, p2, w2) \<Rightarrow>
                (Inr r2, p2\<lparr>conns_inuse := insert r2 (conns_inuse p2)\<rparr>, w2))) \<and>
      (conns_available p1 = [] \<and> ConnectionPool_get_connection e p w = (Inr r, p', w') \<longrightarrow>
         next_ref w1 \<le> r \<and> r < next_ref w' \<and> conns_created p' = conns_created p1 + 1) \<and>
      (conns_available p1 = [] \<and> conns_created p1 \<ge> max_conn p1 \<longrightarrow>
         ConnectionPool_get_connection e p w =
           (Inl (ConnectionError ''[-] Error: Too many connections.''), p1, w1))) \<and>
   (ConnectionPool_get_connection e p w = (Inr r, p', w') \<longrightarrow> r \<in> conns_inuse p')"
proof (intro conjI impI)
  assume "ConnectionPool_check_pid e p w = (Inr (), p1, w1)" "pool_pid p = getpid e"
  then show "p1 = p" "w1 = w" by (simp_all add: ConnectionPool_check_pid_def)
next
  assume "ConnectionPool_check_pid e p w = (Inr (), p1, w1)" "conns_available p1 \<noteq> []"
  then show "ConnectionPool_get_connection e p w =
           (Inr (last (conns_available p1)),
            p1\<lparr>conns_available := butlast (conns_available p1),
                conns_inuse := insert (last (conns_available p1)) (conns_inuse p1)\<rparr>, w1)"
    by (simp add: ConnectionPool_get_connection_def Let_def)
next
  assume "ConnectionPool_check_pid e p w = (Inr (), p1, w1)" "conns_available p1 = []"
  then show "ConnectionPool_get_connection e p w =
           (case ConnectionPool_make_conn e p1 w1 of
              (Inl err, p2, w2) \<Rightarrow> (Inl err, p2, w2)
            | (Inr r2, p2, w2) \<Rightarrow>
                (Inr r2, p2\<lparr>conns_inuse := insert r2 (conns_inuse p2)\<rparr>, w2))"
    by (simp add: ConnectionPool_get_connection_def)
next
  assume c: "ConnectionPool_check_pid e p w = (Inr (), p1, w1)"
    and "conns_available p1 = [] \<and> ConnectionPool_get_connection e p w = (Inr r, p', w')"
  with get_connection_new[OF c, of r p' w']
  show "next_ref w1 \<le> r" "r < next_ref w'" "conns_created p' = conns_created p1 + 1"
    by simp_all
next
  assume "ConnectionPool_check_pid e p w = (Inr (), p1, w1)"
    "conns_available p1 = [] \<and> conns_created p1 \<ge> max_conn p1"
  then show "ConnectionPool_get_connection e p w =
           (Inl (ConnectionError ''[-] Error: Too many connections.''), p1, w1)"
    by (simp add: ConnectionPool_get_connection_def ConnectionPool_make_conn_def)
next
  assume "ConnectionPool_get_connection e p w = (Inr r, p', w')"
  then show "r \<in> conns_inuse p'" by (rule get_connection_inuse)
qed

lemma check_pid_samples:
  "ConnectionPool_check_pid env_up pool_idle world1 = (Inr (), pool_idle, world1)"
  "ConnectionPool_check_pid env_up pool1 world0 = (Inr (), pool1, world0)"
  "ConnectionPool_check_pid env_up pool_full world1 = (Inr (), pool_full, world1)"
  by (simp_all add: ConnectionPool_check_pid_def pool_idle_def pool1_def pool_full_def
      ConnectionPool_init_def env_up_def)

theorem get_connection_spec_witness:
  "ConnectionPool_check_pid env_up pool_idle world1 = (Inr (), pool_idle, world1) \<and>
   conns_available pool_idle \<noteq> [] \<and>
   ConnectionPool_get_connection env_up pool_idle world1 =
     (Inr 0, pool_idle\<lparr>conns_available := [], conns_inuse := {0}\<rparr>, world1) \<and>
   ConnectionPool_check_pid env_up pool1 world0 = (Inr (), pool1, world0) \<and>
   pool_pid pool1 = getpid env_up \<and> conns_available pool1 = [] \<and>
   ConnectionPool_get_connection env_up pool1 world0 =
     (Inr 0, pool1\<lparr>conns_created := 1, conns_inuse := {0}\<rparr>,
      \<lparr>heap = (heap world0)(0 \<mapsto> conn1), next_ref = 1, clock = 1\<rparr>) \<and>
   0 \<in> conns_inuse (pool1\<lparr>conns_created := 1, conns_inuse := {0}\<rparr>) \<and>
   ConnectionPool_check_pid env_up pool_full world1 = (Inr (), pool_full, world1) \<and>
   conns_available pool_full = [] \<and> conns_created pool_full \<ge> max_conn pool_full \<and>
   ConnectionPool_get_connection env_up pool_full world1 =
     (Inl (ConnectionError ''[-] Error: Too many connections.''), pool_full, world1)"
proof -
  note cs = check_pid_samples
  have idle: "conns_available pool_idle \<noteq> []" "last (conns_available pool_idle) = 0"
    "butlast (conns_available pool_idle) = []" "conns_inuse pool_idle = {}"
    by (simp_all add: pool_idle_def pool1_def ConnectionPool_init_def)
  have p1: "pool_pid pool1 = getpid env_up" "conns_available pool1 = []"
    by (simp_all add: pool1_def ConnectionPool_init_def)
  have full: "conns_available pool_full = []" "conns_created pool_full \<ge> max_conn pool_full"
    by (simp_all add: pool_full_def ConnectionPool_init_def)
  from get_connection_spec[of env_up pool_idle world1 pool_idle world1] cs(1) idle
  have a: "ConnectionPool_get_connection env_up pool_idle world1 =
     (Inr 0, pool_idle\<lparr>conns_available := [], conns_inuse := {0}\<rparr>, world1)" by simp
  from get_connection_spec[of env_up pool1 world0 pool1 world0 0
      "pool1\<lparr>conns_created := 1, conns_inuse := {0}\<rparr>"
      "\<lparr>heap = (heap world0)(0 \<mapsto> conn1), next_ref = 1, clock = 1\<rparr>"] get1
  have b: "0 \<in> conns_inuse (pool1\<lparr>conns_created := 1, conns_inuse := {0}\<rparr>)" by blast
  from get_connection_spec[of env_up pool_full world1 pool_full world1] cs(3) full
  have c: "ConnectionPool_get_connection env_up pool_full world1 =
     (Inl (ConnectionError ''[-] Error: Too many connections.''), pool_full, world1)" by blast
  from cs idle(1) p1 full a b c get1 show ?thesis by blast
qed

section \<open>Properties of tcp_recv_response\<close>


text \<open>
  With an object in the socket's place whose \<open>recv\<close> delivers \<open>str\<close>, the loop
  does append, and a short last read is returned with its count.
\<close>

lemma recv_str_stand_in:
  "tcp_recv_response recv_hello_str conn1 10 1024 = Some (Inr (''hello'', 5))"
  by (simp add: tcp_recv_response_def conn1_def recv_loop.simps recv_hello_str_def
      str_iadd_def data_len_def)




section \<open>Properties of the facade\<close>

lemmas facade_defs =
  bnd_def throw_def ret_def Tracker_client_new_def tracker_call_def Storage_client_new_def
  storage_call_def global_name_def local_var_def client_globals_def get_storage_def
  setitem_def falsy_def Let_def

lemmas sample_defs = fenv1_def client0_def Fdfs_client_init_def serv1_def

text \<open>
  An invalid local input is turned down with DataError before any collaborator is
  touched (the facade is returned as it was): a file id that does not parse, for every
  operation but \<open>modify_by_filename\<close> and \<open>modify_by_file\<close>; an empty buffer; a
  local file that fails the file check.
\<close>

lemma bad_file_id_rejected:
  assumes "split_remote_fileid env fid = None"
  shows "\<exists>m. delete_file env fid s = (Inl (DataError m), s)"
    and "\<exists>m. download_to_file env lf fid off db s = (Inl (DataError m), s)"
    and "\<exists>m. download_to_buffer env fid off db s = (Inl (DataError m), s)"
    and "\<exists>m. get_meta_data env fid s = (Inl (DataError m), s)"
    and "\<exists>m. set_meta_data env fid md fl s = (Inl (DataError m), s)"
    and "\<exists>m. truncate_file env sz fid s = (Inl (DataError m), s)"
    and "\<exists>m. append_by_filename env lf fid s = (Inl (DataError m), s)"
    and "\<exists>m. append_by_file env lf fid s = (Inl (DataError m), s)"
    and "\<exists>m. append_by_buffer env buf fid s = (Inl (DataError m), s)"
    and "\<exists>m. modify_by_buffer env buf fid off s = (Inl (DataError m), s)"
    and "\<exists>m. upload_slave_by_filename env lf fid pre md s = (Inl (DataError m), s)"
    and "\<exists>m. upload_slave_by_file env lf fid pre md s = (Inl (DataError m), s)"
    and "\<exists>m. upload_slave_by_buffer env buf fid md ext s = (Inl (DataError m), s)"
  using assms
  by (simp_all add: delete_file_def download_to_file_def download_to_buffer_def
      get_meta_data_def set_meta_data_def truncate_file_def append_by_filename_def
      append_by_file_def append_by_buffer_def modify_by_buffer_def
      upload_slave_by_filename_def upload_slave_by_file_def upload_slave_by_buffer_def
      throw_def Let_def split: prod.splits)

lemma empty_buffer_rejected:
  assumes "falsy buf"
  shows "\<exists>m. upload_by_buffer env buf ext md s = (Inl (DataError m), s)"
    and "\<exists>m. upload_slave_by_buffer env buf fid md ext s = (Inl (DataError m), s)"
    and "\<exists>m. upload_appender_by_buffer env buf ext md s = (Inl (DataError m), s)"
    and "\<exists>m. append_by_buffer env buf fid s = (Inl (DataError m), s)"
    and "\<exists>m. modify_by_buffer env buf fid off s = (Inl (DataError m), s)"
  using assms
  by (simp_all add: upload_by_buffer_def upload_slave_by_buffer_def
      upload_appender_by_buffer_def append_by_buffer_def modify_by_buffer_def throw_def)

lemma missing_file_rejected:
  assumes "\<not> fst (fdfs_check_file env lf)"
  shows "\<exists>m. upload_by_filename env lf md s = (Inl (DataError m), s)"
    and "\<exists>m. upload_by_file env lf md s = (Inl (DataError m), s)"
    and "\<exists>m. upload_slave_by_filename env lf fid pre md s = (Inl (DataError m), s)"
    and "\<exists>m. upload_slave_by_file env lf fid pre md s = (Inl (DataError m), s)"
    and "\<exists>m. upload_appender_by_filename env lf md s = (Inl (DataError m), s)"
    and "\<exists>m. upload_appender_by_file env lf md s = (Inl (DataError m), s)"
    and "\<exists>m. append_by_filename env lf fid s = (Inl (DataError m), s)"
    and "\<exists>m. append_by_file env lf fid s = (Inl (DataError m), s)"
    and "\<exists>m. modify_by_filename env lf fid off s = (Inl (DataError m), s)"
    and "\<exists>m. modify_by_file env lf fid off s = (Inl (DataError m), s)"
  using assms
  by (auto simp: upload_by_filename_def upload_by_file_def upload_slave_by_filename_def
      upload_slave_by_file_def upload_appender_by_filename_def upload_appender_by_file_def
      append_by_filename_def append_by_file_def modify_by_filename_def modify_by_file_def
      throw_def split: prod.splits)

text \<open>
  Claim C3 at \<open>modify_by_filename("/tmp/a.bin", "nogroup")\<close> and the same call of
  \<open>modify_by_file\<close>, with \<open>/tmp/a.bin\<close> an existing file and a file id that does
  not parse: the call raises NameError for \<open>os\<close>, read by \<open>os.stat\<close> ahead of the
  file id check, and not DataError. No collaborator has been touched.
\<close>

theorem modify_bad_file_id_NameError:
  "split_remote_fileid fenv1 ''nogroup'' = None \<and>
   fst (fdfs_check_file fenv1 ''/tmp/a.bin'') \<and>
   modify_by_filename fenv1 ''/tmp/a.bin'' ''nogroup'' 0 client0 = (Inl (NameError ''os''), client0) \<and>
   modify_by_file fenv1 ''/tmp/a.bin'' ''nogroup'' 0 client0 = (Inl (NameError ''os''), client0)"
  by (simp add: modify_by_filename_def modify_by_file_def facade_defs sample_defs)

lemma split_fid1: "split_at_slash fid1 = Some (''group1'', ''M00/00/00/a.bin'')"
  by (simp add: fid1_def)

text \<open>
  With both \<open>offset\<close> and \<open>down_bytes\<close> zero the downloads pass zeros on to the
  storage operation; with either of them not zero the call never returns a result.
\<close>

lemma download_whole_file:
  assumes "split_remote_fileid env fid = Some (g, f)"
    and "tracker_reply env (Suc (length (trace s))) (tracker_query_storage_fetch g f) = Inr serv"
  shows "download_to_buffer env fid 0 0 s =
           (storage_reply env (length (trace s) + 3) (storage_download_to_buffer serv None 0 0 f),
            s\<lparr>trace := trace s @
                  [New_Tracker_client (next_obj s),
                   Tracker_call (next_obj s) (tracker_query_storage_fetch g f),
                   New_Storage_client (Suc (next_obj s)) (ip_addr serv) (port serv)
                     (client_timeout s),
                   Storage_call (Suc (next_obj s)) (next_obj s)
                     (storage_download_to_buffer serv None 0 0 f)],
               next_obj := Suc (Suc (next_obj s))\<rparr>)"
    and "download_to_file env lf fid 0 0 s =
           (storage_reply env (length (trace s) + 3) (storage_download_to_file serv lf 0 0 f),
            s\<lparr>trace := trace s @
                  [New_Tracker_client (next_obj s),
                   Tracker_call (next_obj s) (tracker_query_storage_fetch g f),
                   New_Storage_client (Suc (next_obj s)) (ip_addr serv) (port serv)
                     (client_timeout s),
                   Storage_call (Suc (next_obj s)) (next_obj s)
                     (storage_download_to_file serv lf 0 0 f)],
               next_obj := Suc (Suc (next_obj s))\<rparr>)"
  using assms
  by (simp_all add: download_to_buffer_def download_to_file_def facade_defs numeral_3_eq_3)

lemma download_partial_never_returns:
  assumes "off \<noteq> 0 \<or> db \<noteq> 0"
  shows "\<exists>err s'. download_to_buffer env fid off db s = (Inl err, s')"
    and "\<exists>err s'. download_to_file env lf fid off db s = (Inl err, s')"
  using assms
  by (auto simp: download_to_buffer_def download_to_file_def facade_defs
      split: option.splits prod.splits sum.splits)

text \<open>
  Claim C4 at \<open>download_to_buffer("group1/M00/00/00/a.bin", offset=2, down_bytes=3)\<close>
  and at \<open>download_to_file("/tmp/out", "group1/M00/00/00/a.bin", offset=0,
  down_bytes=3)\<close>: after the tracker query and the construction of the storage client
  the call raises UnboundLocalError (for \<open>file_offset\<close>, for \<open>download_bytes\<close>);
  no storage operation is called.
\<close>

theorem download_partial_UnboundLocalError:
  "download_to_buffer fenv1 fid1 2 3 client0 =
     (Inl (UnboundLocalError ''file_offset''),
      client0\<lparr>trace := [New_Tracker_client 0,
                         Tracker_call 0 (tracker_query_storage_fetch ''group1'' ''M00/00/00/a.bin''),
                         New_Storage_client 1 ''10.0.0.2'' 23000 (Some 30)],
              next_obj := 2\<rparr>) \<and>
   download_to_file fenv1 ''/tmp/out'' fid1 0 3 client0 =
     (Inl (UnboundLocalError ''download_bytes''),
      client0\<lparr>trace := [New_Tracker_client 0,
                         Tracker_call 0 (tracker_query_storage_fetch ''group1'' ''M00/00/00/a.bin''),
                         New_Storage_client 1 ''10.0.0.2'' 23000 (Some 30)],
              next_obj := 2\<rparr>)"
  by (simp add: download_to_buffer_def download_to_file_def facade_defs sample_defs split_fid1)

text \<open>The modify operations do not look at a non-zero \<open>offset\<close>: they do what they do
  for \<open>offset = 0\<close>.\<close>

lemma modify_ignores_offset:
  "modify_by_buffer env buf fid off s = modify_by_buffer env buf fid 0 s"
  "modify_by_filename env lf fid off s = modify_by_filename env lf fid 0 s"
  "modify_by_file env lf fid off s = modify_by_file env lf fid 0 s"
  by (auto simp: modify_by_buffer_def modify_by_filename_def modify_by_file_def Let_def
      split: option.splits prod.splits)

text \<open>
  Claim C5 at \<open>modify_by_buffer(b"abc", "group1/M00/00/00/a.bin", offset=5)\<close>: the
  storage operation \<open>storage_modify_by_buffer\<close> is called with file offset 0, not 5
  (and file size 3). \<open>modify_by_filename\<close> with the same offset raises NameError for
  \<open>os\<close> and calls no storage operation.
\<close>

theorem modify_offset_dropped:
  "modify_by_buffer fenv1 (Some ''abc'') fid1 5 client0 =
     (Inr (PDict []),
      client0\<lparr>trace := [New_Tracker_client 0,
                         Tracker_call 0 (tracker_query_storage_update ''group1'' ''M00/00/00/a.bin''),
                         New_Storage_client 1 ''10.0.0.2'' 23000 (Some 30),
                         Storage_call 1 0
                           (storage_modify_by_buffer serv1 ''abc'' 0 3 ''M00/00/00/a.bin'')],
              next_obj := 2\<rparr>) \<and>
   modify_by_filename fenv1 ''/tmp/a.bin'' fid1 5 client0 = (Inl (NameError ''os''), client0)"
  by (simp add: modify_by_buffer_def modify_by_filename_def facade_defs sample_defs split_fid1)

text \<open>
  \<open>set_meta_data\<close> on a file id that parses, once the tracker has resolved the node
  and the storage operation has answered a status: status 0 gives the success
  dictionary, any other status raises NameError for \<open>os\<close>.
\<close>

lemma set_meta_data_status:
  assumes "split_remote_fileid env fid = Some (g, f)"
    and "tracker_reply env (Suc (length (trace s))) (tracker_query_storage_update g f) = Inr serv"
    and "storage_reply env (length (trace s) + 3) (storage_set_metadata serv f md) = Inr status"
  shows "fst (set_meta_data env fid md fl s) =
           (if status = PInt 0
            then Inr (PDict [(''Status'', PStr ''Set meta data success.''),
                             (''Storage IP'', PStr (ip_addr serv))])
            else Inl (NameError ''os''))"
  using assms by (simp add: set_meta_data_def facade_defs numeral_3_eq_3)

text \<open>
  Claim C7 at \<open>set_meta_data("group1/M00/00/00/a.bin", {"width": "100"})\<close> with the
  storage node answering status 2: the call raises NameError for \<open>os\<close>, which carries
  no status, and not DataError with the status 2.
\<close>

theorem set_meta_data_status2_NameError:
  "storage_reply fenv1 3 (storage_set_metadata serv1 ''M00/00/00/a.bin''
      (Some [(''width'', ''100'')])) = Inr (PInt 2) \<and>
   fst (set_meta_data fenv1 fid1 (Some [(''width'', ''100'')]) ''O'' client0) =
     Inl (NameError ''os'')"
  by (simp add: set_meta_data_def facade_defs sample_defs split_fid1)

text \<open>\<open>get_storage\<close> keeps one \<open>Storage_client\<close> per endpoint.\<close>

lemma get_storage_cached:
  assumes "get_storage serv s = (Inr store, s')"
  shows "get_storage serv s' = (Inr store, s')"
  using assms
  by (auto simp: get_storage_def bnd_def Storage_client_new_def split: option.splits)

text \<open>
  Claim C9 at two calls of \<open>get_meta_data("group1/M00/00/00/a.bin")\<close> in a row, both
  resolved to the storage node \<open>10.0.0.2:23000\<close>: each call constructs a
  \<open>Storage_client\<close> of its own (objects 1 and 3) and calls the storage operation on
  it; the \<open>storages\<close> dictionary stays empty. Two calls of \<open>delete_file\<close>, which
  goes through \<open>get_storage\<close>, construct one \<open>Storage_client\<close> (object 1) and use it
  twice.
\<close>

theorem storage_client_not_reused:
  "and_then (get_meta_data fenv1 fid1) (get_meta_data fenv1 fid1) client0 =
     (Inr (PDict []),
      client0\<lparr>trace := [New_Tracker_client 0,
                         Tracker_call 0 (tracker_query_storage_update ''group1'' ''M00/00/00/a.bin''),
                         New_Storage_client 1 ''10.0.0.2'' 23000 (Some 30),
                         Storage_call 1 0 (storage_get_metadata serv1 ''M00/00/00/a.bin''),
                         New_Tracker_client 2,
                         Tracker_call 2 (tracker_query_storage_update ''group1'' ''M00/00/00/a.bin''),
                         New_Storage_client 3 ''10.0.0.2'' 23000 (Some 30),
                         Storage_call 3 2 (storage_get_metadata serv1 ''M00/00/00/a.bin'')],
              next_obj := 4\<rparr>) \<and>
   storages (snd (and_then (get_meta_data fenv1 fid1) (get_meta_data fenv1 fid1) client0))
     (''10.0.0.2'', 23000) = None \<and>
   trace (snd (and_then (delete_file fenv1 fid1) (delete_file fenv1 fid1) client0)) =
     [New_Tracker_client 0,
      Tracker_call 0 (tracker_query_storage_update ''group1'' ''M00/00/00/a.bin''),
      New_Storage_client 1 ''10.0.0.2'' 23000 (Some 30),
      Storage_call 1 0 (storage_delete_file serv1 ''M00/00/00/a.bin''),
      New_Tracker_client 2,
      Tracker_call 2 (tracker_query_storage_update ''group1'' ''M00/00/00/a.bin''),
      Storage_call 1 2 (storage_delete_file serv1 ''M00/00/00/a.bin'')]"
  by (simp add: and_then_def get_meta_data_def delete_file_def facade_defs sample_defs split_fid1)

end
